theory Spec2Isabelle
  imports Complex_Main
begin

section \<open>The manual backpropagation engine of the lecture notebook\<close>

text \<open>
  The notebook \<^verbatim>\<open>2-backpropagation\<close> implements three layer classes
  (\<^verbatim>\<open>LinearLayer\<close>, \<^verbatim>\<open>Sigmoid\<close>, \<^verbatim>\<open>ReLU\<close>) on top of NumPy and drives them with two
  \<^verbatim>\<open>for\<close> loops. This theory embeds those classes and loops.

  Conventions of the embedding:
  \<^item> a NumPy array is a two-dimensional array (the batch tensors of the notebook), with
    its shape kept explicitly so that arrays with zero rows or zero columns keep their
    other dimension;
  \<^item> an array has a type of entries (its \<^verbatim>\<open>dtype\<close>). The arrays of the Dense layer, of
    \<^verbatim>\<open>Sigmoid\<close>, of the drivers and of the loss hold real numbers: \<^verbatim>\<open>float64\<close> rounding,
    overflow, \<^verbatim>\<open>inf\<close> and \<^verbatim>\<open>nan\<close> are not represented there, and the integer array \<^verbatim>\<open>y\<close>
    is embedded in the reals. \<^verbatim>\<open>ReLU\<close> is written for any type of entries with \<open>0\<close>, \<open>1\<close>,
    \<open>*\<close> and \<open><\<close>; it is used on real entries in the network and on \<open>np_float\<close> entries,
    which add \<^verbatim>\<open>inf\<close>, \<^verbatim>\<open>-inf\<close> and \<^verbatim>\<open>nan\<close> to the finite values, where its behaviour on
    such entries is at stake. \<^verbatim>\<open>x > 0\<close> is an array of Booleans;
  \<^item> an object is a record, a method takes the record and returns it updated, together
    with either the returned array or the exception that was raised. The record is
    returned in both cases, since an assignment made before a \<^verbatim>\<open>raise\<close> persists;
  \<^item> \<^verbatim>\<open>.copy()\<close> is the identity: arrays are values here and nothing in the modelled
    code writes into an existing array.
\<close>

subsection \<open>NumPy arrays\<close>

datatype py_error = AttributeError | TypeError | ValueError

record 'a ndarray_of =
  nrows :: nat
  ncols :: nat
  rows :: "'a list list"

text \<open>An array of real entries.\<close>

type_synonym ndarray = "real ndarray_of"

type_synonym 'a raises = "py_error + 'a"

definition wf_ndarray :: "'a ndarray_of \<Rightarrow> bool" where
  "wf_ndarray A \<longleftrightarrow>
     length (rows A) = nrows A \<and> list_all (\<lambda>r. length r = ncols A) (rows A)"

text \<open>\<open>mk r c f\<close> is the array of shape \<open>(r, c)\<close> whose entry \<open>[i, j]\<close> is \<open>f i j\<close>;
  \<open>item A i j\<close> reads \<^verbatim>\<open>A[i, j]\<close>. Every array operation below builds its result with
  \<open>mk\<close> from the entries and the shape of its operands.\<close>

definition mk :: "nat \<Rightarrow> nat \<Rightarrow> (nat \<Rightarrow> nat \<Rightarrow> 'a) \<Rightarrow> 'a ndarray_of" where
  "mk r c f = \<lparr>nrows = r, ncols = c, rows = map (\<lambda>i. map (f i) [0..<c]) [0..<r]\<rparr>"

definition item :: "'a ndarray_of \<Rightarrow> nat \<Rightarrow> nat \<Rightarrow> 'a" where
  "item A i j = rows A ! i ! j"

definition np_shape :: "'a ndarray_of \<Rightarrow> nat \<times> nat" where
  "np_shape A = (nrows A, ncols A)"

text \<open>\<^verbatim>\<open>A.dot(B)\<close> for two-dimensional operands: the inner dimensions must agree, else
  NumPy raises \<^verbatim>\<open>ValueError\<close> (shapes not aligned).\<close>

definition np_dot :: "ndarray \<Rightarrow> ndarray \<Rightarrow> ndarray raises" where
  "np_dot A B =
     (if ncols A = nrows B
      then Inr (mk (nrows A) (ncols B)
                  (\<lambda>i j. sum_list (map (\<lambda>k. item A i k * item B k j) [0..<ncols A])))
      else Inl ValueError)"

text \<open>\<^verbatim>\<open>A.T\<close>.\<close>

definition np_T :: "ndarray \<Rightarrow> ndarray" where
  "np_T A = mk (ncols A) (nrows A) (\<lambda>i j. item A j i)"

text \<open>\<^verbatim>\<open>np.sum(A, axis=0, keepdims=True)\<close>.\<close>

definition np_sum_axis0_keepdims :: "ndarray \<Rightarrow> ndarray" where
  "np_sum_axis0_keepdims A =
     mk 1 (ncols A) (\<lambda>i j. sum_list (map (\<lambda>k. item A k j) [0..<nrows A]))"

text \<open>A unary elementwise operation, also an operation with a scalar operand
  (\<^verbatim>\<open>-x\<close>, \<^verbatim>\<open>np.exp(x)\<close>, \<^verbatim>\<open>1 + x\<close>, \<^verbatim>\<open>1 - x\<close>, \<^verbatim>\<open>1 / x\<close>, \<^verbatim>\<open>x > 0\<close>, \<^verbatim>\<open>x / n\<close>).\<close>

definition elementwise :: "('a \<Rightarrow> 'b) \<Rightarrow> 'a ndarray_of \<Rightarrow> 'b ndarray_of" where
  "elementwise f A = mk (nrows A) (ncols A) (\<lambda>i j. f (item A i j))"

text \<open>NumPy broadcasting of one dimension: equal lengths, or one of them is 1.\<close>

definition broadcast_dim :: "nat \<Rightarrow> nat \<Rightarrow> nat option" where
  "broadcast_dim a b =
     (if a = b then Some a else if a = 1 then Some b else if b = 1 then Some a else None)"

text \<open>A binary elementwise operation on two arrays (\<^verbatim>\<open>A + B\<close>, \<^verbatim>\<open>A * B\<close>, \<^verbatim>\<open>A / B\<close>):
  the shapes are broadcast, an axis of length 1 is read at index 0, and incompatible
  shapes raise \<^verbatim>\<open>ValueError\<close>.\<close>

definition broadcast ::
  "('a \<Rightarrow> 'b \<Rightarrow> 'c) \<Rightarrow> 'a ndarray_of \<Rightarrow> 'b ndarray_of \<Rightarrow> 'c ndarray_of raises" where
  "broadcast f A B =
     (case broadcast_dim (nrows A) (nrows B) of
        None \<Rightarrow> Inl ValueError
      | Some r \<Rightarrow>
          (case broadcast_dim (ncols A) (ncols B) of
             None \<Rightarrow> Inl ValueError
           | Some c \<Rightarrow>
               Inr (mk r c (\<lambda>i j.
                      f (item A (if nrows A = 1 then 0 else i) (if ncols A = 1 then 0 else j))
                        (item B (if nrows B = 1 then 0 else i) (if ncols B = 1 then 0 else j))))))"

text \<open>A one-dimensional array of length \<open>n\<close> (the bias) takes part in an operation with
  a two-dimensional array as an array of shape \<open>(1, n)\<close>.\<close>

definition as_row :: "real list \<Rightarrow> ndarray" where
  "as_row b = mk 1 (length b) (\<lambda>i j. b ! j)"

definition np_add :: "ndarray \<Rightarrow> ndarray \<Rightarrow> ndarray raises" where
  "np_add = broadcast (+)"

definition np_mul :: "'a::times ndarray_of \<Rightarrow> 'a ndarray_of \<Rightarrow> 'a ndarray_of raises" where
  "np_mul = broadcast (*)"

text \<open>\<^verbatim>\<open>A / B\<close> on float operands never raises; where the divisor is \<open>0\<close> NumPy gives
  \<^verbatim>\<open>inf\<close> or \<^verbatim>\<open>nan\<close>, which the reals do not have. Statements about \<open>np_div\<close> are made
  for non-zero divisors.\<close>

definition np_div :: "ndarray \<Rightarrow> ndarray \<Rightarrow> ndarray raises" where
  "np_div = broadcast (/)"

definition np_neg :: "ndarray \<Rightarrow> ndarray" where
  "np_neg = elementwise uminus"

definition np_exp :: "ndarray \<Rightarrow> ndarray" where
  "np_exp = elementwise exp"

text \<open>\<^verbatim>\<open>x > 0\<close>: an array of Booleans.\<close>

definition np_gt0 :: "'a::{zero,ord} ndarray_of \<Rightarrow> bool ndarray_of" where
  "np_gt0 = elementwise (\<lambda>v. v > 0)"

text \<open>\<^verbatim>\<open>.astype(int)\<close> on an array of Booleans: \<^verbatim>\<open>True\<close> becomes 1, \<^verbatim>\<open>False\<close> becomes 0.
  The integers 0 and 1 are those of the type of entries they are multiplied with.\<close>

definition astype_int :: "bool ndarray_of \<Rightarrow> 'a::{zero,one} ndarray_of" where
  "astype_int = elementwise (\<lambda>b. if b then 1 else 0)"

text \<open>In \<^verbatim>\<open>(x > 0) * x\<close> NumPy converts the Boolean operand to the type of the other
  operand, \<^verbatim>\<open>True\<close> to 1 and \<^verbatim>\<open>False\<close> to 0, and multiplies.\<close>

definition promote_bool :: "bool ndarray_of \<Rightarrow> 'a::{zero,one} ndarray_of" where
  "promote_bool = elementwise (\<lambda>b. if b then 1 else 0)"

subsection \<open>Entries with the special values of \<^verbatim>\<open>float64\<close>\<close>

text \<open>
  An entry of a \<^verbatim>\<open>float64\<close> array is a finite value, \<^verbatim>\<open>inf\<close>, \<^verbatim>\<open>-inf\<close> or \<^verbatim>\<open>nan\<close>. A finite
  value is taken as the real number it denotes, so \<^verbatim>\<open>-0.0\<close> and \<^verbatim>\<open>0.0\<close>, which compare
  equal, are one value, and a product of finite values is not rounded. The products with a
  special value and the comparisons follow IEEE 754: \<^verbatim>\<open>nan\<close> times anything is \<^verbatim>\<open>nan\<close>, zero
  times an infinity is \<^verbatim>\<open>nan\<close>, every comparison with \<^verbatim>\<open>nan\<close> is false. Multiplying by 0 or
  by 1, which is all that \<^verbatim>\<open>ReLU\<close> does to its input, is exact in \<^verbatim>\<open>float64\<close>.
\<close>

datatype np_float = Fin real | PosInf | NegInf | NaN

fun isfinite :: "np_float \<Rightarrow> bool" where
  "isfinite (Fin v) = True"
| "isfinite PosInf = False"
| "isfinite NegInf = False"
| "isfinite NaN = False"

instantiation np_float :: "{zero, one, times, ord}"
begin

definition zero_np_float :: np_float where
  "zero_np_float = Fin 0"

definition one_np_float :: np_float where
  "one_np_float = Fin 1"

fun times_np_float :: "np_float \<Rightarrow> np_float \<Rightarrow> np_float" where
  "times_np_float NaN b = NaN"
| "times_np_float a NaN = NaN"
| "times_np_float (Fin a) (Fin b) = Fin (a * b)"
| "times_np_float (Fin a) PosInf = (if a = 0 then NaN else if a > 0 then PosInf else NegInf)"
| "times_np_float (Fin a) NegInf = (if a = 0 then NaN else if a > 0 then NegInf else PosInf)"
| "times_np_float PosInf (Fin b) = (if b = 0 then NaN else if b > 0 then PosInf else NegInf)"
| "times_np_float NegInf (Fin b) = (if b = 0 then NaN else if b > 0 then NegInf else PosInf)"
| "times_np_float PosInf PosInf = PosInf"
| "times_np_float PosInf NegInf = NegInf"
| "times_np_float NegInf PosInf = NegInf"
| "times_np_float NegInf NegInf = PosInf"

fun less_np_float :: "np_float \<Rightarrow> np_float \<Rightarrow> bool" where
  "less_np_float NaN b = False"
| "less_np_float a NaN = False"
| "less_np_float (Fin a) (Fin b) = (a < b)"
| "less_np_float (Fin a) PosInf = True"
| "less_np_float (Fin a) NegInf = False"
| "less_np_float PosInf b = False"
| "less_np_float NegInf (Fin b) = True"
| "less_np_float NegInf PosInf = True"
| "less_np_float NegInf NegInf = False"

definition less_eq_np_float :: "np_float \<Rightarrow> np_float \<Rightarrow> bool" where
  "less_eq_np_float a b \<longleftrightarrow> a < b \<or> (a = b \<and> a \<noteq> NaN)"

instance ..

end

subsection \<open>The Dense layer: class \<^verbatim>\<open>LinearLayer\<close>\<close>

text \<open>
  \<^verbatim>\<open>
  class LinearLayer:
      def __init__(self, shape, activation="relu"):
          self.shape = shape
          ...
          self.weights = np.random.uniform(-bound, bound, self.shape)
          ...
          self.bias = np.random.uniform(-bound, bound, self.shape[1])
          self.input = None
          self.grad_weights = None
          self.grad_bias = None

      def forward_pass(self, x, training=True):
          self.input = x
          return x.dot(self.weights) + self.bias

      def backward_pass(self, cum_grad):
          weights = self.weights.copy()
          self.grad_weights = self.input.T.dot(cum_grad)
          self.grad_bias = np.sum(cum_grad, axis=0, keepdims=True)
          # we only want to understand backpropagation here so we skip updating the weights
          return cum_grad.dot(weights.T)
  \<close>
  The fields that start as \<^verbatim>\<open>None\<close> are options. The bias is a one-dimensional array.
  The random draws of \<^verbatim>\<open>__init__\<close> are parameters of \<open>LinearLayer_init\<close>.
\<close>

record LinearLayer =
  shape :: "nat \<times> nat"
  weights :: ndarray
  bias :: "real list"
  input :: "ndarray option"
  grad_weights :: "ndarray option"
  grad_bias :: "ndarray option"

text \<open>A Python value, for the keyword argument \<^verbatim>\<open>training\<close>.\<close>

datatype py_value = PyNone | PyBool bool | PyInt int | PyFloat real | PyStr string

definition LinearLayer_init :: "nat \<times> nat \<Rightarrow> ndarray \<Rightarrow> real list \<Rightarrow> LinearLayer" where
  "LinearLayer_init sh drawn_weights drawn_bias =
     \<lparr>shape = sh, weights = drawn_weights, bias = drawn_bias,
      input = None, grad_weights = None, grad_bias = None\<rparr>"

definition LinearLayer_forward_pass ::
  "LinearLayer \<Rightarrow> ndarray \<Rightarrow> py_value \<Rightarrow> ndarray raises \<times> LinearLayer" where
  "LinearLayer_forward_pass self x training =
     (let self1 = self\<lparr>input := Some x\<rparr>
      in (case np_dot x (weights self1) of
            Inl e \<Rightarrow> Inl e
          | Inr xw \<Rightarrow> np_add xw (as_row (bias self1)),
          self1))"

definition LinearLayer_backward_pass ::
  "LinearLayer \<Rightarrow> ndarray \<Rightarrow> ndarray raises \<times> LinearLayer" where
  "LinearLayer_backward_pass self cum_grad =
     (let weights_copy = weights self
      in case input self of
           None \<Rightarrow> (Inl AttributeError, self)
         | Some inp \<Rightarrow>
             (case np_dot (np_T inp) cum_grad of
                Inl e \<Rightarrow> (Inl e, self)
              | Inr gw \<Rightarrow>
                  (let self1 = self\<lparr>grad_weights := Some gw\<rparr>;
                       self2 = self1\<lparr>grad_bias := Some (np_sum_axis0_keepdims cum_grad)\<rparr>
                   in (np_dot cum_grad (np_T weights_copy), self2))))"

subsection \<open>The activation layers: classes \<^verbatim>\<open>Sigmoid\<close> and \<^verbatim>\<open>ReLU\<close>\<close>

text \<open>
  \<^verbatim>\<open>
  class Sigmoid:
      def __init__(self):
          self.input = None
          self.grad = None
      def forward_pass(self, x):
          self.input = x
          return self._sigmoid(x)
      def backward_pass(self, cum_grad):
          self.grad = self.gradient(self.input)
          return cum_grad * self.grad
      def gradient(self, x):
          return self._sigmoid(x) * (1 - self._sigmoid(x))
      def _sigmoid(self, x):
          return 1 / (1 + np.exp(-x))
  \<close>
  The fields \<^verbatim>\<open>input\<close> and \<^verbatim>\<open>grad\<close> are \<open>sig_input\<close> and \<open>sig_grad\<close> here (and
  \<open>relu_input\<close>, \<open>relu_grad\<close> for \<^verbatim>\<open>ReLU\<close>), since a field name belongs to one record.
  With \<^verbatim>\<open>self.input\<close> still \<^verbatim>\<open>None\<close>, \<^verbatim>\<open>-x\<close> (and \<^verbatim>\<open>x > 0\<close> in \<^verbatim>\<open>ReLU\<close>) raises
  \<^verbatim>\<open>TypeError\<close>.
\<close>

record Sigmoid =
  sig_input :: "ndarray option"
  sig_grad :: "ndarray option"

definition Sigmoid_init :: Sigmoid where
  "Sigmoid_init = \<lparr>sig_input = None, sig_grad = None\<rparr>"

definition Sigmoid_sigmoid :: "ndarray \<Rightarrow> ndarray" where
  "Sigmoid_sigmoid x =
     elementwise (\<lambda>v. 1 / v) (elementwise (\<lambda>v. 1 + v) (np_exp (np_neg x)))"

definition Sigmoid_gradient :: "ndarray option \<Rightarrow> ndarray raises" where
  "Sigmoid_gradient x =
     (case x of
        None \<Rightarrow> Inl TypeError
      | Some a \<Rightarrow> np_mul (Sigmoid_sigmoid a) (elementwise (\<lambda>v. 1 - v) (Sigmoid_sigmoid a)))"

definition Sigmoid_forward_pass :: "Sigmoid \<Rightarrow> ndarray \<Rightarrow> ndarray raises \<times> Sigmoid" where
  "Sigmoid_forward_pass self x =
     (let self1 = self\<lparr>sig_input := Some x\<rparr>
      in (Inr (Sigmoid_sigmoid x), self1))"

definition Sigmoid_backward_pass :: "Sigmoid \<Rightarrow> ndarray \<Rightarrow> ndarray raises \<times> Sigmoid" where
  "Sigmoid_backward_pass self cum_grad =
     (case Sigmoid_gradient (sig_input self) of
        Inl e \<Rightarrow> (Inl e, self)
      | Inr g \<Rightarrow>
          (let self1 = self\<lparr>sig_grad := Some g\<rparr>
           in (np_mul cum_grad g, self1)))"

text \<open>
  \<^verbatim>\<open>
  class ReLU:
      def __init__(self):
          self.input = None
          self.grad = None
      def forward_pass(self, x):
          self.input = x
          return (x > 0) * x
      def backward_pass(self, cum_grad):
          self.grad = self.gradient(self.input)
          return cum_grad * self.grad
      def gradient(self, x):
          return (x > 0).astype(int)
  \<close>
\<close>

text \<open>The class is written once, for any type of entries; \<open>ReLU\<close> is the layer on real
  entries that the network holds.\<close>

record 'a ReLU_of =
  relu_input :: "'a ndarray_of option"
  relu_grad :: "'a ndarray_of option"

type_synonym ReLU = "real ReLU_of"

definition ReLU_init :: "'a ReLU_of" where
  "ReLU_init = \<lparr>relu_input = None, relu_grad = None\<rparr>"

definition ReLU_gradient ::
  "'a::{zero,one,times,ord} ndarray_of option \<Rightarrow> 'a ndarray_of raises" where
  "ReLU_gradient x =
     (case x of
        None \<Rightarrow> Inl TypeError
      | Some a \<Rightarrow> Inr (astype_int (np_gt0 a)))"

definition ReLU_forward_pass ::
  "'a::{zero,one,times,ord} ReLU_of \<Rightarrow> 'a ndarray_of \<Rightarrow> 'a ndarray_of raises \<times> 'a ReLU_of" where
  "ReLU_forward_pass self x =
     (let self1 = self\<lparr>relu_input := Some x\<rparr>
      in (np_mul (promote_bool (np_gt0 x)) x, self1))"

definition ReLU_backward_pass ::
  "'a::{zero,one,times,ord} ReLU_of \<Rightarrow> 'a ndarray_of \<Rightarrow> 'a ndarray_of raises \<times> 'a ReLU_of" where
  "ReLU_backward_pass self cum_grad =
     (case ReLU_gradient (relu_input self) of
        Inl e \<Rightarrow> (Inl e, self)
      | Inr g \<Rightarrow>
          (let self1 = self\<lparr>relu_grad := Some g\<rparr>
           in (np_mul cum_grad g, self1)))"

subsection \<open>The network: a list of layers and the two driver loops\<close>

text \<open>
  \<^verbatim>\<open>
  layers = [l0, a0, l1, a1]

  out = x_in.copy()
  for layer in layers:
      out = layer.forward_pass(out)
  probs_np = out

  grad = -(y / probs_np) + (1 - y) / (1 - probs_np)
  grad /= grad.shape[0]

  for layer in layers[::-1]:
      grad = layer.backward_pass(grad)
  \<close>
  The list holds distinct objects, so it is a list of layer values; a loop returns the
  list with every layer in the state its call left it in. A call that raises ends the
  loop: the layers after it in iteration order are not called. The loops call
  \<^verbatim>\<open>forward_pass\<close> with one argument, so \<^verbatim>\<open>training\<close> has its default.
\<close>

datatype layer = Dense_obj LinearLayer | ReLU_obj ReLU | Sigmoid_obj Sigmoid

fun layer_forward_pass :: "layer \<Rightarrow> ndarray \<Rightarrow> ndarray raises \<times> layer" where
  "layer_forward_pass (Dense_obj l) x =
     (case LinearLayer_forward_pass l x (PyBool True) of (r, l') \<Rightarrow> (r, Dense_obj l'))"
| "layer_forward_pass (ReLU_obj a) x =
     (case ReLU_forward_pass a x of (r, a') \<Rightarrow> (r, ReLU_obj a'))"
| "layer_forward_pass (Sigmoid_obj a) x =
     (case Sigmoid_forward_pass a x of (r, a') \<Rightarrow> (r, Sigmoid_obj a'))"

fun layer_backward_pass :: "layer \<Rightarrow> ndarray \<Rightarrow> ndarray raises \<times> layer" where
  "layer_backward_pass (Dense_obj l) g =
     (case LinearLayer_backward_pass l g of (r, l') \<Rightarrow> (r, Dense_obj l'))"
| "layer_backward_pass (ReLU_obj a) g =
     (case ReLU_backward_pass a g of (r, a') \<Rightarrow> (r, ReLU_obj a'))"
| "layer_backward_pass (Sigmoid_obj a) g =
     (case Sigmoid_backward_pass a g of (r, a') \<Rightarrow> (r, Sigmoid_obj a'))"

text \<open>\<^verbatim>\<open>for layer in ls: v = layer.method(v)\<close>, for either method.\<close>

fun for_layer_in ::
  "(layer \<Rightarrow> ndarray \<Rightarrow> ndarray raises \<times> layer) \<Rightarrow> layer list \<Rightarrow> ndarray \<Rightarrow>
   ndarray raises \<times> layer list" where
  "for_layer_in method [] v = (Inr v, [])"
| "for_layer_in method (l # ls) v =
     (case method l v of
        (Inl e, l') \<Rightarrow> (Inl e, l' # ls)
      | (Inr v', l') \<Rightarrow>
          (case for_layer_in method ls v' of (r, ls') \<Rightarrow> (r, l' # ls')))"

definition forward_driver :: "layer list \<Rightarrow> ndarray \<Rightarrow> ndarray raises \<times> layer list" where
  "forward_driver layers x_in = for_layer_in layer_forward_pass layers x_in"

text \<open>The backward loop runs over \<^verbatim>\<open>layers[::-1]\<close>; the list is given back in the order
  of \<^verbatim>\<open>layers\<close>.\<close>

definition backward_driver :: "layer list \<Rightarrow> ndarray \<Rightarrow> ndarray raises \<times> layer list" where
  "backward_driver layers grad =
     (case for_layer_in layer_backward_pass (rev layers) grad of (r, ls) \<Rightarrow> (r, rev ls))"

text \<open>The seed gradient of the binary cross-entropy, as the notebook computes it between
  the two loops.\<close>

definition seed_gradient :: "ndarray \<Rightarrow> ndarray \<Rightarrow> ndarray raises" where
  "seed_gradient y probs_np =
     (case np_div y probs_np of
        Inl e \<Rightarrow> Inl e
      | Inr a \<Rightarrow>
          (case np_div (elementwise (\<lambda>v. 1 - v) y) (elementwise (\<lambda>v. 1 - v) probs_np) of
             Inl e \<Rightarrow> Inl e
           | Inr b \<Rightarrow>
               (case np_add (np_neg a) b of
                  Inl e \<Rightarrow> Inl e
                | Inr grad \<Rightarrow> Inr (elementwise (\<lambda>v. v / real (nrows grad)) grad))))"

subsection \<open>The drivers as the specification words them\<close>

text \<open>
  The specification describes the forward pass by what flows between the layers: the
  first layer receives the input batch, layer \<open>n\<close> receives what layer \<open>n - 1\<close>
  returned, and the pass returns what the last layer returned.
  \<open>output_after layers x n\<close> is the value that has left the first \<open>n\<close> layers.
\<close>

fun output_after :: "layer list \<Rightarrow> ndarray \<Rightarrow> nat \<Rightarrow> ndarray raises" where
  "output_after layers x 0 = Inr x"
| "output_after layers x (Suc n) =
     (case output_after layers x n of
        Inl e \<Rightarrow> Inl e
      | Inr v \<Rightarrow> fst (layer_forward_pass (layers ! n) v))"

text \<open>
  For the backward pass the last layer receives the seed gradient and every other layer
  receives what the layer after it returned. \<open>gradient_after layers g n\<close> is the gradient
  that has left the last \<open>n\<close> layers; the \<open>n\<close>-th call, counted from 0, is that of the
  layer at position \<open>length layers - 1 - n\<close>.
\<close>

fun gradient_after :: "layer list \<Rightarrow> ndarray \<Rightarrow> nat \<Rightarrow> ndarray raises" where
  "gradient_after layers g 0 = Inr g"
| "gradient_after layers g (Suc n) =
     (case gradient_after layers g n of
        Inl e \<Rightarrow> Inl e
      | Inr v \<Rightarrow> fst (layer_backward_pass (layers ! (length layers - Suc n)) v))"

subsection \<open>Concrete arrays and layers for the examples\<close>

text \<open>\<open>arr\<close> writes an array as the list of its rows, as \<^verbatim>\<open>np.array([[..], [..]])\<close> does.\<close>

definition arr :: "'a list list \<Rightarrow> 'a ndarray_of" where
  "arr rs = \<lparr>nrows = length rs, ncols = (case rs of [] \<Rightarrow> 0 | r # _ \<Rightarrow> length r), rows = rs\<rparr>"

definition c2_layer :: LinearLayer where
  "c2_layer =
     (LinearLayer_init (2, 1) (arr [[3], [4]]) [0])\<lparr>input := Some (arr [[1, 2], [5, 6], [0, 1]])\<rparr>"

definition c2_cum_grad :: ndarray where
  "c2_cum_grad = arr [[1], [2], [-1]]"

text \<open>The shape of an array field, \<open>None\<close> while the field is \<^verbatim>\<open>None\<close>.\<close>

definition shape_of_field :: "'a ndarray_of option \<Rightarrow> (nat \<times> nat) option" where
  "shape_of_field a = map_option np_shape a"

text \<open>A layer of shape \<open>(2, 4)\<close> right after construction; the same layer after
  \<^verbatim>\<open>forward_pass\<close> was called on a batch with three columns (the call raises and leaves
  the batch stored), and after it was called on a batch with two columns.\<close>

definition c4_fresh :: LinearLayer where
  "c4_fresh = LinearLayer_init (2, 4) (arr [[1, 0, 2, 0], [0, 1, 0, 3]]) [0, 0, 0, 0]"

definition c4_x :: ndarray where
  "c4_x = arr [[1, 2, 3]]"

definition c4_stale :: LinearLayer where
  "c4_stale = snd (LinearLayer_forward_pass c4_fresh c4_x (PyBool True))"

definition c4_cum_grad :: ndarray where
  "c4_cum_grad = arr [[1, 1, 1, 1]]"

definition c4_ok_layer :: LinearLayer where
  "c4_ok_layer = snd (LinearLayer_forward_pass c4_fresh (arr [[1, 2]]) (PyBool True))"

text \<open>A layer with one weight, which a caller replaces between the two passes.\<close>

definition c1_layer :: LinearLayer where
  "c1_layer = LinearLayer_init (1, 1) (arr [[1]]) [0]"

definition c1_x :: ndarray where
  "c1_x = arr [[1]]"

definition c1_new_weights :: ndarray where
  "c1_new_weights = arr [[2]]"

definition c1_cum_grad :: ndarray where
  "c1_cum_grad = arr [[1]]"

definition c1_after_forward :: LinearLayer where
  "c1_after_forward = snd (LinearLayer_forward_pass c1_layer c1_x (PyBool True))"

text \<open>Two layers with the same weights and bias and different transient fields.\<close>

definition c9_layer :: LinearLayer where
  "c9_layer = LinearLayer_init (2, 2) (arr [[1, 2], [3, 4]]) [10, 20]"

definition c9_other :: LinearLayer where
  "c9_other = c9_layer\<lparr>input := Some (arr [[5, 5]]), grad_bias := Some (arr [[1, 1]])\<rparr>"

definition c9_x :: ndarray where
  "c9_x = arr [[1, 1], [0, 2], [-1, 0]]"

text \<open>Inputs for the activation layers: an entry equal to 0, a positive and a negative one.\<close>

definition c5_x :: ndarray where
  "c5_x = arr [[0, 2, -1]]"

definition c5_cum_grad :: ndarray where
  "c5_cum_grad = arr [[5, 5, 5]]"

text \<open>The same with \<^verbatim>\<open>float64\<close> entries, and a batch whose entries are \<^verbatim>\<open>-inf\<close> and \<^verbatim>\<open>nan\<close>.\<close>

definition c5_float_x :: "np_float ndarray_of" where
  "c5_float_x = arr [[Fin 0, Fin 2, Fin (- 1), PosInf]]"

definition c5_float_cum_grad :: "np_float ndarray_of" where
  "c5_float_cum_grad = arr [[Fin 5, Fin 5, Fin 5, Fin 5]]"

definition c5_nonfinite :: "np_float ndarray_of" where
  "c5_nonfinite = arr [[NegInf, NaN]]"

definition c6_x :: ndarray where
  "c6_x = arr [[0, 1]]"

definition c6_cum_grad :: ndarray where
  "c6_cum_grad = arr [[4, 3]]"

definition c6_after_forward :: Sigmoid where
  "c6_after_forward = snd (Sigmoid_forward_pass Sigmoid_init c6_x)"

text \<open>Labels and probabilities of a batch of two examples.\<close>

definition c8_y :: ndarray where
  "c8_y = arr [[0], [1]]"

definition c8_probs :: ndarray where
  "c8_probs = arr [[1 / 2], [1 / 4]]"

subsection \<open>The loop, unrolled\<close>

text \<open>\<open>value_after method ls v n\<close> is the value held by the loop variable after \<open>n\<close>
  iterations of \<^verbatim>\<open>for layer in ls: v = layer.method(v)\<close>, or the exception an iteration
  raised.\<close>

fun value_after ::
  "(layer \<Rightarrow> ndarray \<Rightarrow> ndarray raises \<times> layer) \<Rightarrow> layer list \<Rightarrow> ndarray \<Rightarrow> nat \<Rightarrow>
   ndarray raises" where
  "value_after method ls v 0 = Inr v"
| "value_after method ls v (Suc n) =
     (case value_after method ls v n of
        Inl e \<Rightarrow> Inl e
      | Inr w \<Rightarrow> fst (method (ls ! n) w))"

text \<open>The network of the notebook in one dimension: Dense, ReLU, Dense, Sigmoid.\<close>

definition c3_layers :: "layer list" where
  "c3_layers =
     [Dense_obj (LinearLayer_init (1, 1) (arr [[2]]) [-1]),
      ReLU_obj ReLU_init,
      Dense_obj (LinearLayer_init (1, 1) (arr [[3]]) [-3]),
      Sigmoid_obj Sigmoid_init]"

definition c3_x :: ndarray where
  "c3_x = arr [[1]]"

definition c3_seed :: ndarray where
  "c3_seed = arr [[4]]"

definition c3_after_forward :: "layer list" where
  "c3_after_forward = snd (forward_driver c3_layers c3_x)"

section \<open>Properties of the array operations\<close>

lemma nrows_mk: "nrows (mk r c f) = r"
  by (simp add: mk_def)

lemma ncols_mk: "ncols (mk r c f) = c"
  by (simp add: mk_def)

lemma item_mk: "i < r \<Longrightarrow> j < c \<Longrightarrow> item (mk r c f) i j = f i j"
  by (simp add: mk_def item_def)

lemma wf_mk: "wf_ndarray (mk r c f)"
  by (simp add: wf_ndarray_def mk_def list_all_iff)

lemma mk_cong: "(\<And>i j. i < r \<Longrightarrow> j < c \<Longrightarrow> f i j = g i j) \<Longrightarrow> mk r c f = mk r c g"
  by (simp add: mk_def)

lemma np_shape_mk: "np_shape (mk r c f) = (r, c)"
  by (simp add: np_shape_def nrows_mk ncols_mk)

lemma sum_list_upt: "sum_list (map f [0..<n]) = (\<Sum>k<n. f k)"
  by (simp add: interv_sum_list_conv_sum_set_nat lessThan_atLeast0)

lemma np_dot_ok:
  "ncols A = nrows B \<Longrightarrow>
   np_dot A B = Inr (mk (nrows A) (ncols B)
     (\<lambda>i j. \<Sum>k<ncols A. item A i k * item B k j))"
  by (simp add: np_dot_def sum_list_upt)

lemma np_dot_mismatch: "ncols A \<noteq> nrows B \<Longrightarrow> np_dot A B = Inl ValueError"
  by (simp add: np_dot_def)

lemma nrows_np_T: "nrows (np_T A) = ncols A"
  by (simp add: np_T_def nrows_mk)

lemma ncols_np_T: "ncols (np_T A) = nrows A"
  by (simp add: np_T_def ncols_mk)

lemma item_np_T: "i < ncols A \<Longrightarrow> j < nrows A \<Longrightarrow> item (np_T A) i j = item A j i"
  by (simp add: np_T_def item_mk)

lemma broadcast_dim_same: "broadcast_dim a a = Some a"
  by (simp add: broadcast_dim_def)

lemma broadcast_same_shape:
  "nrows A = nrows B \<Longrightarrow> ncols A = ncols B \<Longrightarrow>
   broadcast f A B = Inr (mk (nrows A) (ncols A) (\<lambda>i j. f (item A i j) (item B i j)))"
  by (auto simp: broadcast_def broadcast_dim_same intro!: mk_cong)

lemma nrows_as_row: "nrows (as_row b) = 1"
  by (simp add: as_row_def nrows_mk)

lemma ncols_as_row: "ncols (as_row b) = length b"
  by (simp add: as_row_def ncols_mk)

lemma item_as_row: "j < length b \<Longrightarrow> item (as_row b) 0 j = b ! j"
  by (simp add: as_row_def item_mk)

text \<open>Adding a bias of length \<open>ncols A\<close> to every row of \<open>A\<close>.\<close>

lemma np_add_bias:
  "length b = ncols A \<Longrightarrow>
   np_add A (as_row b) = Inr (mk (nrows A) (ncols A) (\<lambda>i j. item A i j + b ! j))"
  by (auto simp: np_add_def broadcast_def broadcast_dim_def nrows_as_row ncols_as_row
      item_as_row intro!: mk_cong)

section \<open>Dense layer: forward pass\<close>

lemma LinearLayer_forward_pass_state:
  "snd (LinearLayer_forward_pass self x training) = self\<lparr>input := Some x\<rparr>"
  by (simp add: LinearLayer_forward_pass_def Let_def)

lemma LinearLayer_forward_pass_value:
  "fst (LinearLayer_forward_pass self x training) =
     (case np_dot x (weights self) of
        Inl e \<Rightarrow> Inl e
      | Inr xw \<Rightarrow> np_add xw (as_row (bias self)))"
  by (simp add: LinearLayer_forward_pass_def Let_def split: sum.splits)

text \<open>
  Claim C10. The keyword parameter \<^verbatim>\<open>training\<close> of \<^verbatim>\<open>LinearLayer.forward_pass\<close> has no
  effect: for every layer, every input \<open>x\<close> and every value passed as \<^verbatim>\<open>training\<close>, the
  returned value (or raised exception) and the resulting layer state are those of the
  call with the default \<^verbatim>\<open>training=True\<close>.
\<close>

theorem training_parameter_ignored:
  "LinearLayer_forward_pass self x training = LinearLayer_forward_pass self x (PyBool True)"
  by (simp add: LinearLayer_forward_pass_def)

section \<open>Dense layer: backward pass\<close>

lemma LinearLayer_backward_pass_weights:
  "weights (snd (LinearLayer_backward_pass self g)) = weights self"
  by (simp add: LinearLayer_backward_pass_def Let_def split: option.splits sum.splits)

lemma LinearLayer_backward_pass_bias:
  "bias (snd (LinearLayer_backward_pass self g)) = bias self"
  by (simp add: LinearLayer_backward_pass_def Let_def split: option.splits sum.splits)

text \<open>With a stored input whose batch size is that of \<open>g\<close>, both gradient fields are
  assigned; whether the call then returns depends on the last product alone.\<close>

lemma LinearLayer_backward_pass_ok:
  assumes "input self = Some x" and "nrows x = nrows g"
  shows "LinearLayer_backward_pass self g =
     (np_dot g (np_T (weights self)),
      self\<lparr>grad_weights :=
             Some (mk (ncols x) (ncols g) (\<lambda>i j. \<Sum>k<nrows x. item x k i * item g k j)),
           grad_bias := Some (mk 1 (ncols g) (\<lambda>i j. \<Sum>k<nrows g. item g k j))\<rparr>)"
proof -
  have "np_dot (np_T x) g =
      Inr (mk (ncols x) (ncols g) (\<lambda>i j. \<Sum>k<nrows x. item (np_T x) i k * item g k j))"
    using assms(2) by (simp add: np_dot_ok ncols_np_T nrows_np_T)
  also have "mk (ncols x) (ncols g) (\<lambda>i j. \<Sum>k<nrows x. item (np_T x) i k * item g k j)
     = mk (ncols x) (ncols g) (\<lambda>i j. \<Sum>k<nrows x. item x k i * item g k j)"
    by (rule mk_cong) (simp add: item_np_T)
  finally show ?thesis using assms(1)
    by (simp add: LinearLayer_backward_pass_def Let_def np_sum_axis0_keepdims_def sum_list_upt)
qed

lemma np_dot_T_ok:
  "ncols g = ncols W \<Longrightarrow>
   np_dot g (np_T W) =
     Inr (mk (nrows g) (nrows W) (\<lambda>i j. \<Sum>k<ncols W. item g i k * item W j k))"
  by (auto simp add: np_dot_ok ncols_np_T nrows_np_T item_np_T intro!: mk_cong sum.cong)

text \<open>
  Claim C2. For a Dense layer whose weights have shape \<open>[in_dim, out_dim]\<close> and whose
  stored input has shape \<open>[batch, in_dim]\<close>, and for every \<open>cum_grad\<close> of shape
  \<open>[batch, out_dim]\<close>, \<^verbatim>\<open>backward_pass\<close> returns without raising, sets \<^verbatim>\<open>grad_weights\<close>
  to the transposed input times \<open>cum_grad\<close> (shape \<open>[in_dim, out_dim]\<close>), sets
  \<^verbatim>\<open>grad_bias\<close> to the column sums of \<open>cum_grad\<close> (shape \<open>[1, out_dim]\<close>) and returns
  \<open>cum_grad\<close> times the transposed weights (shape \<open>[batch, in_dim]\<close>). The products and
  the sum are stated entry by entry.
\<close>

theorem dense_backward_gradients:
  assumes "input self = Some x"
    and "np_shape x = (batch, in_dim)"
    and "np_shape cum_grad = (batch, out_dim)"
    and "np_shape (weights self) = (in_dim, out_dim)"
  shows "\<exists>out gw gb self'.
     LinearLayer_backward_pass self cum_grad = (Inr out, self') \<and>
     grad_weights self' = Some gw \<and> wf_ndarray gw \<and> np_shape gw = (in_dim, out_dim) \<and>
     (\<forall>i<in_dim. \<forall>j<out_dim. item gw i j = (\<Sum>k<batch. item x k i * item cum_grad k j)) \<and>
     grad_bias self' = Some gb \<and> wf_ndarray gb \<and> np_shape gb = (1, out_dim) \<and>
     (\<forall>j<out_dim. item gb 0 j = (\<Sum>k<batch. item cum_grad k j)) \<and>
     wf_ndarray out \<and> np_shape out = (batch, in_dim) \<and>
     (\<forall>i<batch. \<forall>j<in_dim.
        item out i j = (\<Sum>k<out_dim. item cum_grad i k * item (weights self) j k))"
proof -
  from assms have sh: "nrows x = batch" "ncols x = in_dim" "nrows cum_grad = batch"
    "ncols cum_grad = out_dim" "nrows (weights self) = in_dim" "ncols (weights self) = out_dim"
    by (simp_all add: np_shape_def)
  have run: "LinearLayer_backward_pass self cum_grad =
     (Inr (mk batch in_dim (\<lambda>i j. \<Sum>k<out_dim. item cum_grad i k * item (weights self) j k)),
      self\<lparr>grad_weights :=
             Some (mk in_dim out_dim (\<lambda>i j. \<Sum>k<batch. item x k i * item cum_grad k j)),
           grad_bias := Some (mk 1 out_dim (\<lambda>i j. \<Sum>k<batch. item cum_grad k j))\<rparr>)"
    using LinearLayer_backward_pass_ok [OF assms(1), of cum_grad]
      np_dot_T_ok [of cum_grad "weights self"] sh by simp
  show ?thesis
    unfolding run by (simp add: wf_mk np_shape_mk item_mk)
qed

theorem dense_backward_gradients_witness:
  "input c2_layer = Some (arr [[1, 2], [5, 6], [0, 1]]) \<and>
   np_shape (arr [[1, 2 :: real], [5, 6], [0, 1]]) = (3, 2) \<and>
   np_shape c2_cum_grad = (3, 1) \<and>
   np_shape (weights c2_layer) = (2, 1) \<and>
   (\<exists>out gw gb self'.
     LinearLayer_backward_pass c2_layer c2_cum_grad = (Inr out, self') \<and>
     grad_weights self' = Some gw \<and> wf_ndarray gw \<and> np_shape gw = (2, 1) \<and>
     (\<forall>i<2. \<forall>j<1. item gw i j =
        (\<Sum>k<3. item (arr [[1, 2], [5, 6], [0, 1]]) k i * item c2_cum_grad k j)) \<and>
     grad_bias self' = Some gb \<and> wf_ndarray gb \<and> np_shape gb = (1, 1) \<and>
     (\<forall>j<1. item gb 0 j = (\<Sum>k<3. item c2_cum_grad k j)) \<and>
     wf_ndarray out \<and> np_shape out = (3, 2) \<and>
     (\<forall>i<3. \<forall>j<2.
        item out i j = (\<Sum>k<1. item c2_cum_grad i k * item (weights c2_layer) j k)))"
proof -
  have h1: "input c2_layer = Some (arr [[1, 2], [5, 6], [0, 1]])"
    by (simp add: c2_layer_def LinearLayer_init_def)
  have h2: "np_shape (arr [[1, 2 :: real], [5, 6], [0, 1]]) = (3, 2)"
    by (simp add: np_shape_def arr_def)
  have h3: "np_shape c2_cum_grad = (3, 1)"
    by (simp add: np_shape_def arr_def c2_cum_grad_def)
  have h4: "np_shape (weights c2_layer) = (2, 1)"
    by (simp add: np_shape_def arr_def c2_layer_def LinearLayer_init_def)
  from dense_backward_gradients [OF h1 h2 h3 h4] h1 h2 h3 h4 show ?thesis by blast
qed

text \<open>The same call, evaluated.\<close>

lemma c2_layer_backward_evaluated:
  "LinearLayer_backward_pass c2_layer c2_cum_grad =
    (Inr (arr [[3, 4], [6, 8], [-3, -4]]),
     c2_layer\<lparr>grad_weights := Some (arr [[11], [13]]), grad_bias := Some (arr [[2]])\<rparr>)"
  by (simp add: LinearLayer_backward_pass_def c2_layer_def c2_cum_grad_def LinearLayer_init_def
      arr_def np_dot_def np_T_def mk_def item_def np_sum_axis0_keepdims_def eval_nat_numeral)

text \<open>
  Claim C4, as stated: for every Dense layer and every backward call, \<^verbatim>\<open>weights\<close> and
  \<^verbatim>\<open>bias\<close> are unchanged and afterwards \<^verbatim>\<open>grad_weights\<close> has the shape of \<^verbatim>\<open>weights\<close>.
  The shape part fails. \<^verbatim>\<open>forward_pass\<close> stores its argument before the product that
  checks it, so a layer of shape \<open>(2, 4)\<close> can hold a batch with three columns; the
  following \<^verbatim>\<open>backward_pass\<close> with a \<open>cum_grad\<close> of shape \<open>(1, 4)\<close> returns normally and
  leaves a \<^verbatim>\<open>grad_weights\<close> of shape \<open>(3, 4)\<close>. And on a layer that has seen no forward
  call, \<^verbatim>\<open>backward_pass\<close> raises \<^verbatim>\<open>AttributeError\<close> and \<^verbatim>\<open>grad_weights\<close> is still \<^verbatim>\<open>None\<close>.
\<close>

theorem dense_grad_weights_shape_counterexample:
  "fst (LinearLayer_forward_pass c4_fresh c4_x (PyBool True)) = Inl ValueError \<and>
   fst (LinearLayer_backward_pass c4_stale c4_cum_grad) = Inr (arr [[3, 4]]) \<and>
   shape_of_field (grad_weights (snd (LinearLayer_backward_pass c4_stale c4_cum_grad)))
     = Some (3, 4) \<and>
   np_shape (weights (snd (LinearLayer_backward_pass c4_stale c4_cum_grad))) = (2, 4) \<and>
   shape_of_field (grad_weights (snd (LinearLayer_backward_pass c4_stale c4_cum_grad)))
     \<noteq> Some (np_shape (weights (snd (LinearLayer_backward_pass c4_stale c4_cum_grad)))) \<and>
   fst (LinearLayer_backward_pass c4_fresh c4_cum_grad) = Inl AttributeError \<and>
   shape_of_field (grad_weights (snd (LinearLayer_backward_pass c4_fresh c4_cum_grad))) = None"
  by (simp add: LinearLayer_backward_pass_def LinearLayer_forward_pass_def c4_stale_def
      c4_fresh_def c4_x_def c4_cum_grad_def LinearLayer_init_def shape_of_field_def np_shape_def
      arr_def np_dot_def np_T_def mk_def item_def np_sum_axis0_keepdims_def eval_nat_numeral)

text \<open>
  Claim C4, amended. Every backward call leaves \<^verbatim>\<open>weights\<close> and \<^verbatim>\<open>bias\<close> unchanged,
  whether it returns or raises. When the stored input and \<open>cum_grad\<close> are two-dimensional
  arrays (as every array of this theory is), the stored input has as many columns as
  \<^verbatim>\<open>weights\<close> has rows and the call returns, \<^verbatim>\<open>grad_weights\<close> has the shape of \<^verbatim>\<open>weights\<close>
  after the call. A one-dimensional \<open>cum_grad\<close> is outside the statement: NumPy's
  product with it drops an axis.
\<close>

theorem dense_backward_frame:
  "weights (snd (LinearLayer_backward_pass self cum_grad)) = weights self \<and>
   bias (snd (LinearLayer_backward_pass self cum_grad)) = bias self \<and>
   (\<forall>x out. input self = Some x \<and> ncols x = nrows (weights self) \<and>
       fst (LinearLayer_backward_pass self cum_grad) = Inr out \<longrightarrow>
     shape_of_field (grad_weights (snd (LinearLayer_backward_pass self cum_grad)))
       = Some (np_shape (weights self)))"
proof (intro conjI allI impI)
  show "weights (snd (LinearLayer_backward_pass self cum_grad)) = weights self"
    by (rule LinearLayer_backward_pass_weights)
  show "bias (snd (LinearLayer_backward_pass self cum_grad)) = bias self"
    by (rule LinearLayer_backward_pass_bias)
next
  fix x out
  assume h: "input self = Some x \<and> ncols x = nrows (weights self) \<and>
       fst (LinearLayer_backward_pass self cum_grad) = Inr out"
  show "shape_of_field (grad_weights (snd (LinearLayer_backward_pass self cum_grad)))
       = Some (np_shape (weights self))"
  proof (cases "nrows x = nrows cum_grad")
    case True
    note run = LinearLayer_backward_pass_ok [of self x cum_grad]
    from h True run have "np_dot cum_grad (np_T (weights self)) = Inr out" by simp
    then have "ncols cum_grad = ncols (weights self)"
      by (simp add: np_dot_def nrows_np_T split: if_splits)
    with h True run show ?thesis
      by (simp add: shape_of_field_def np_shape_def nrows_mk ncols_mk)
  next
    case False
    then have "np_dot (np_T x) cum_grad = Inl ValueError"
      by (simp add: np_dot_mismatch ncols_np_T)
    with h show ?thesis by (auto simp add: LinearLayer_backward_pass_def)
  qed
qed

theorem dense_backward_frame_witness:
  "weights (snd (LinearLayer_backward_pass c4_ok_layer c4_cum_grad)) = weights c4_ok_layer \<and>
   bias (snd (LinearLayer_backward_pass c4_ok_layer c4_cum_grad)) = bias c4_ok_layer \<and>
   input c4_ok_layer = Some (arr [[1, 2]]) \<and>
   ncols (arr [[1, 2 :: real]]) = nrows (weights c4_ok_layer) \<and>
   fst (LinearLayer_backward_pass c4_ok_layer c4_cum_grad) = Inr (arr [[3, 4]]) \<and>
   shape_of_field (grad_weights (snd (LinearLayer_backward_pass c4_ok_layer c4_cum_grad)))
       = Some (np_shape (weights c4_ok_layer))"
proof -
  have h: "input c4_ok_layer = Some (arr [[1, 2]]) \<and>
     ncols (arr [[1, 2 :: real]]) = nrows (weights c4_ok_layer) \<and>
     fst (LinearLayer_backward_pass c4_ok_layer c4_cum_grad) = Inr (arr [[3, 4]])"
    by (simp add: LinearLayer_backward_pass_def LinearLayer_forward_pass_def c4_ok_layer_def
      c4_fresh_def c4_cum_grad_def LinearLayer_init_def
      arr_def np_dot_def np_T_def mk_def item_def np_sum_axis0_keepdims_def eval_nat_numeral)
  from dense_backward_frame [of c4_ok_layer c4_cum_grad] h show ?thesis by blast
qed

text \<open>
  Claim C1, as stated: when a caller changes \<^verbatim>\<open>weights\<close> between \<^verbatim>\<open>forward_pass\<close> and
  \<^verbatim>\<open>backward_pass\<close>, the returned gradient is still computed from the weights of the
  forward call. It is not: \<^verbatim>\<open>forward_pass\<close> keeps no copy of the weights, and the copy in
  \<^verbatim>\<open>backward_pass\<close> is taken when \<^verbatim>\<open>backward_pass\<close> starts. With weight 1 at the forward
  call and weight 2 assigned afterwards, the gradient returned for \<open>cum_grad = 1\<close> is 2,
  where the weights of the forward call give 1.
\<close>

theorem dense_backward_snapshot_counterexample:
  "fst (LinearLayer_forward_pass c1_layer c1_x (PyBool True)) = Inr (arr [[1]]) \<and>
   np_dot c1_cum_grad (np_T (weights c1_layer)) = Inr (arr [[1]]) \<and>
   fst (LinearLayer_backward_pass c1_after_forward c1_cum_grad) = Inr (arr [[1]]) \<and>
   fst (LinearLayer_backward_pass (c1_after_forward\<lparr>weights := c1_new_weights\<rparr>) c1_cum_grad)
     = Inr (arr [[2]]) \<and>
   fst (LinearLayer_backward_pass (c1_after_forward\<lparr>weights := c1_new_weights\<rparr>) c1_cum_grad)
     \<noteq> np_dot c1_cum_grad (np_T (weights c1_layer))"
  by (simp add: LinearLayer_backward_pass_def LinearLayer_forward_pass_def c1_after_forward_def
      c1_layer_def c1_x_def c1_cum_grad_def c1_new_weights_def LinearLayer_init_def Let_def
      np_add_def broadcast_def broadcast_dim_def as_row_def
      arr_def np_dot_def np_T_def mk_def item_def np_sum_axis0_keepdims_def eval_nat_numeral)

text \<open>
  Claim C1, amended. The gradient returned by \<^verbatim>\<open>backward_pass\<close> is computed from the
  \<^verbatim>\<open>weights\<close> field as it is when \<^verbatim>\<open>backward_pass\<close> is called (the copy is taken at the
  start of that call): after \<^verbatim>\<open>forward_pass\<close> on \<open>x\<close> and an assignment of \<open>new_weights\<close>
  to \<^verbatim>\<open>weights\<close>, a backward call with a \<open>cum_grad\<close> of the batch size of \<open>x\<close> returns
  \<open>cum_grad\<close> times the transposed \<open>new_weights\<close> (or raises as that product does).
\<close>

theorem dense_backward_reads_current_weights:
  assumes "nrows cum_grad = nrows x"
  shows "fst (LinearLayer_backward_pass
            ((snd (LinearLayer_forward_pass self x training))\<lparr>weights := new_weights\<rparr>) cum_grad)
         = np_dot cum_grad (np_T new_weights)"
  using assms
    LinearLayer_backward_pass_ok
      [of "(self\<lparr>input := Some x\<rparr>)\<lparr>weights := new_weights\<rparr>" x cum_grad]
  by (simp add: LinearLayer_forward_pass_state)

theorem dense_backward_reads_current_weights_witness:
  "nrows c1_cum_grad = nrows c1_x \<and>
   fst (LinearLayer_backward_pass
          ((snd (LinearLayer_forward_pass c1_layer c1_x (PyBool True)))
             \<lparr>weights := c1_new_weights\<rparr>) c1_cum_grad)
     = np_dot c1_cum_grad (np_T c1_new_weights) \<and>
   np_dot c1_cum_grad (np_T c1_new_weights) = Inr (arr [[2]])"
proof -
  have h: "nrows c1_cum_grad = nrows c1_x"
    by (simp add: c1_cum_grad_def c1_x_def arr_def)
  have v: "np_dot c1_cum_grad (np_T c1_new_weights) = Inr (arr [[2]])"
    by (simp add: c1_cum_grad_def c1_new_weights_def arr_def np_dot_def np_T_def mk_def
        item_def eval_nat_numeral)
  from dense_backward_reads_current_weights [where cum_grad = c1_cum_grad and x = c1_x
      and self = c1_layer and training = "PyBool True" and new_weights = c1_new_weights] h v
  show ?thesis by simp
qed

section \<open>Dense layer: determinism and frame of the forward pass\<close>

text \<open>
  Claim C9. \<^verbatim>\<open>LinearLayer.forward_pass\<close> is deterministic and has no effect but storing
  its argument in \<^verbatim>\<open>input\<close>: two layers with the same weights and bias give the same
  result on the same \<open>x\<close>, whatever their other fields and the \<^verbatim>\<open>training\<close> argument; the
  layer after the call is the layer before it with \<^verbatim>\<open>input\<close> set to \<open>x\<close>; calling again
  on the same \<open>x\<close> gives the same result and state; the result is that of
  \<^verbatim>\<open>x.dot(self.weights) + self.bias\<close>, also where that raises; and for \<open>x\<close> of shape
  \<open>[batch, in_dim]\<close>, weights of shape \<open>[in_dim, out_dim]\<close> and a bias of length \<open>out_dim\<close>
  the result is the array \<open>x \<cdot> weights + bias\<close> of shape \<open>[batch, out_dim]\<close>.
\<close>

theorem dense_forward_deterministic:
  "(weights a = weights b \<and> bias a = bias b \<longrightarrow>
      fst (LinearLayer_forward_pass a x t) = fst (LinearLayer_forward_pass b x t')) \<and>
   snd (LinearLayer_forward_pass self x t) = self\<lparr>input := Some x\<rparr> \<and>
   LinearLayer_forward_pass (snd (LinearLayer_forward_pass self x t)) x t
     = LinearLayer_forward_pass self x t \<and>
   fst (LinearLayer_forward_pass self x t) =
     (case np_dot x (weights self) of
        Inl e \<Rightarrow> Inl e
      | Inr xw \<Rightarrow> np_add xw (as_row (bias self))) \<and>
   (np_shape x = (batch, in_dim) \<and> np_shape (weights self) = (in_dim, out_dim) \<and>
    length (bias self) = out_dim \<longrightarrow>
      (\<exists>out. fst (LinearLayer_forward_pass self x t) = Inr out \<and>
         wf_ndarray out \<and> np_shape out = (batch, out_dim) \<and>
         (\<forall>i<batch. \<forall>j<out_dim.
            item out i j = (\<Sum>k<in_dim. item x i k * item (weights self) k j) + bias self ! j)))"
proof (intro conjI impI)
  assume "weights a = weights b \<and> bias a = bias b"
  then show "fst (LinearLayer_forward_pass a x t) = fst (LinearLayer_forward_pass b x t')"
    by (auto simp add: LinearLayer_forward_pass_value split: sum.splits)
next
  show "snd (LinearLayer_forward_pass self x t) = self\<lparr>input := Some x\<rparr>"
    by (rule LinearLayer_forward_pass_state)
next
  show "LinearLayer_forward_pass (snd (LinearLayer_forward_pass self x t)) x t
     = LinearLayer_forward_pass self x t"
    by (simp add: LinearLayer_forward_pass_def Let_def)
next
  show "fst (LinearLayer_forward_pass self x t) =
     (case np_dot x (weights self) of
        Inl e \<Rightarrow> Inl e
      | Inr xw \<Rightarrow> np_add xw (as_row (bias self)))"
    by (rule LinearLayer_forward_pass_value)
next
  assume h: "np_shape x = (batch, in_dim) \<and> np_shape (weights self) = (in_dim, out_dim) \<and>
    length (bias self) = out_dim"
  then have sh: "nrows x = batch" "ncols x = in_dim" "nrows (weights self) = in_dim"
    "ncols (weights self) = out_dim" "length (bias self) = out_dim"
    by (simp_all add: np_shape_def)
  have "fst (LinearLayer_forward_pass self x t) =
     Inr (mk batch out_dim (\<lambda>i j.
            item (mk batch out_dim (\<lambda>i j. \<Sum>k<in_dim. item x i k * item (weights self) k j)) i j
            + bias self ! j))"
    using sh by (simp add: LinearLayer_forward_pass_value np_dot_ok np_add_bias nrows_mk ncols_mk)
  then show "\<exists>out. fst (LinearLayer_forward_pass self x t) = Inr out \<and>
         wf_ndarray out \<and> np_shape out = (batch, out_dim) \<and>
         (\<forall>i<batch. \<forall>j<out_dim.
            item out i j = (\<Sum>k<in_dim. item x i k * item (weights self) k j) + bias self ! j)"
    by (simp add: wf_mk np_shape_mk item_mk)
qed

theorem dense_forward_deterministic_witness:
  "weights c9_layer = weights c9_other \<and> bias c9_layer = bias c9_other \<and>
   c9_layer \<noteq> c9_other \<and>
   fst (LinearLayer_forward_pass c9_layer c9_x (PyBool True))
     = fst (LinearLayer_forward_pass c9_other c9_x PyNone) \<and>
   np_shape c9_x = (3, 2) \<and> np_shape (weights c9_layer) = (2, 2) \<and>
   length (bias c9_layer) = 2 \<and>
   (\<exists>out. fst (LinearLayer_forward_pass c9_layer c9_x (PyBool True)) = Inr out \<and>
      wf_ndarray out \<and> np_shape out = (3, 2) \<and>
      (\<forall>i<3. \<forall>j<2.
         item out i j = (\<Sum>k<2. item c9_x i k * item (weights c9_layer) k j) + bias c9_layer ! j))"
proof -
  have h1: "weights c9_layer = weights c9_other \<and> bias c9_layer = bias c9_other"
    by (simp add: c9_other_def)
  have h2: "np_shape c9_x = (3, 2) \<and> np_shape (weights c9_layer) = (2, 2) \<and>
      length (bias c9_layer) = 2"
    by (simp add: c9_x_def c9_layer_def LinearLayer_init_def np_shape_def arr_def)
  have h3: "c9_layer \<noteq> c9_other"
    by (simp add: c9_other_def c9_layer_def LinearLayer_init_def)
  from dense_forward_deterministic [where a = c9_layer and b = c9_other and x = c9_x
      and t = "PyBool True" and t' = PyNone and self = c9_layer and batch = 3 and in_dim = 2
      and out_dim = 2] h1 h2 h3
  show ?thesis by blast
qed

text \<open>The same call, evaluated.\<close>

lemma c9_layer_forward_evaluated:
  "fst (LinearLayer_forward_pass c9_layer c9_x (PyBool True))
     = Inr (arr [[14, 26], [16, 28], [9, 18]])"
  by (simp add: LinearLayer_forward_pass_def c9_layer_def c9_x_def LinearLayer_init_def
      np_add_def broadcast_def broadcast_dim_def as_row_def
      arr_def np_dot_def np_T_def mk_def item_def eval_nat_numeral)

section \<open>Activation layers\<close>

lemma nrows_elementwise: "nrows (elementwise f A) = nrows A"
  by (simp add: elementwise_def nrows_mk)

lemma ncols_elementwise: "ncols (elementwise f A) = ncols A"
  by (simp add: elementwise_def ncols_mk)

lemma item_elementwise:
  "i < nrows A \<Longrightarrow> j < ncols A \<Longrightarrow> item (elementwise f A) i j = f (item A i j)"
  by (simp add: elementwise_def item_mk)

lemma elementwise_elementwise:
  "elementwise f (elementwise g A) = elementwise (\<lambda>v. f (g v)) A"
  unfolding elementwise_def nrows_mk ncols_mk
  by (rule mk_cong) (simp add: item_mk)

lemma ReLU_forward_pass_eq:
  "ReLU_forward_pass self x =
     (Inr (elementwise (\<lambda>v. (if v > 0 then 1 else 0) * v) x), self\<lparr>relu_input := Some x\<rparr>)"
proof -
  let ?b = "promote_bool (np_gt0 x)"
  have b: "?b = elementwise (\<lambda>v. if v > 0 then 1 else 0) x"
    by (simp add: promote_bool_def np_gt0_def elementwise_elementwise)
  have "np_mul ?b x = Inr (mk (nrows x) (ncols x) (\<lambda>i j. item ?b i j * item x i j))"
    by (simp add: np_mul_def b broadcast_same_shape nrows_elementwise ncols_elementwise)
  also have "mk (nrows x) (ncols x) (\<lambda>i j. item ?b i j * item x i j)
     = elementwise (\<lambda>v. (if v > 0 then 1 else 0) * v) x"
    unfolding elementwise_def by (rule mk_cong) (simp add: b item_elementwise)
  finally show ?thesis by (simp add: ReLU_forward_pass_def Let_def)
qed

lemma ReLU_gradient_eq:
  "ReLU_gradient (Some x) = Inr (elementwise (\<lambda>v. if v > 0 then 1 else 0) x)"
  by (simp add: ReLU_gradient_def astype_int_def np_gt0_def elementwise_elementwise)

lemma ReLU_forward_value:
  fixes x :: ndarray
  shows "fst (ReLU_forward_pass self x) = Inr (elementwise (\<lambda>v. if v > 0 then v else 0) x)"
proof -
  have "elementwise (\<lambda>v::real. (if v > 0 then 1 else 0) * v) x
      = elementwise (\<lambda>v. if v > 0 then v else 0) x"
    unfolding elementwise_def by (rule mk_cong) simp
  then show ?thesis by (simp add: ReLU_forward_pass_eq)
qed

lemma np_float_positive:
  "(0 < a) = (case a of Fin v \<Rightarrow> 0 < v | PosInf \<Rightarrow> True | NegInf \<Rightarrow> False | NaN \<Rightarrow> False)"
  for a :: np_float
  by (cases a) (simp_all add: zero_np_float_def)

lemma np_float_one_times: "1 * a = a" for a :: np_float
  by (cases a) (simp_all add: one_np_float_def)

lemma np_float_zero_times: "0 * a = (if isfinite a then 0 else NaN)" for a :: np_float
  by (cases a) (simp_all add: zero_np_float_def)

lemma np_float_zero_neq_one: "(0::np_float) \<noteq> 1"
  by (simp add: zero_np_float_def one_np_float_def)

text \<open>
  Claim C5, as stated: \<^verbatim>\<open>ReLU.forward_pass\<close> returns \<open>x\<close> where \<open>x\<close> is positive and 0
  otherwise. The code computes \<^verbatim>\<open>(x > 0) * x\<close>, and the product of \<^verbatim>\<open>False\<close> with an entry
  that is \<^verbatim>\<open>-inf\<close> or \<^verbatim>\<open>nan\<close> is \<^verbatim>\<open>nan\<close>: at such an entry, which is not positive, the
  forward value is \<^verbatim>\<open>nan\<close> and not 0.
\<close>

theorem relu_forward_nonfinite_counterexample:
  "fst (ReLU_forward_pass ReLU_init c5_nonfinite) = Inr (arr [[NaN, NaN]]) \<and>
   \<not> item c5_nonfinite 0 0 > 0 \<and> \<not> item c5_nonfinite 0 1 > 0 \<and>
   item (arr [[NaN, NaN :: np_float]]) 0 0 \<noteq> 0 \<and>
   item (arr [[NaN, NaN :: np_float]]) 0 1 \<noteq> 0"
  by (simp add: ReLU_forward_pass_def ReLU_init_def c5_nonfinite_def np_mul_def np_gt0_def
      promote_bool_def elementwise_def broadcast_def broadcast_dim_def arr_def mk_def item_def
      Let_def zero_np_float_def one_np_float_def eval_nat_numeral)

text \<open>
  Claim C5, amended. \<^verbatim>\<open>ReLU.forward_pass\<close> stores \<open>x\<close> and returns, entry by entry, \<open>x\<close>
  where \<open>x\<close> is positive (\<^verbatim>\<open>inf\<close> included) and 0 where \<open>x\<close> is finite and not positive;
  where \<open>x\<close> is \<^verbatim>\<open>-inf\<close> or \<^verbatim>\<open>nan\<close> it returns \<^verbatim>\<open>nan\<close>. The derivative that
  \<^verbatim>\<open>backward_pass\<close> computes from the stored input, stores in \<^verbatim>\<open>grad\<close> and multiplies
  \<open>cum_grad\<close> with is 1 where the stored input is strictly positive and 0 otherwise, for
  every entry. At an entry equal to 0 the forward value is 0 and the derivative is 0,
  not 1.
\<close>

theorem relu_forward_and_derivative:
  fixes x :: "np_float ndarray_of"
  shows "\<exists>out d.
     ReLU_forward_pass self x = (Inr out, self\<lparr>relu_input := Some x\<rparr>) \<and>
     np_shape out = np_shape x \<and>
     ReLU_gradient (relu_input (snd (ReLU_forward_pass self x))) = Inr d \<and>
     np_shape d = np_shape x \<and>
     relu_grad (snd (ReLU_backward_pass (snd (ReLU_forward_pass self x)) cum_grad)) = Some d \<and>
     fst (ReLU_backward_pass (snd (ReLU_forward_pass self x)) cum_grad) = np_mul cum_grad d \<and>
     (\<forall>i<nrows x. \<forall>j<ncols x.
        (item x i j > 0 \<longrightarrow> item out i j = item x i j \<and> item d i j = 1) \<and>
        (\<not> item x i j > 0 \<longrightarrow> item d i j = 0) \<and>
        (\<not> item x i j > 0 \<and> isfinite (item x i j) \<longrightarrow> item out i j = 0) \<and>
        (item x i j = NegInf \<or> item x i j = NaN \<longrightarrow> item out i j = NaN) \<and>
        (item x i j = 0 \<longrightarrow> item out i j = 0 \<and> item d i j = 0 \<and> item d i j \<noteq> 1))"
proof -
  let ?out = "elementwise (\<lambda>v::np_float. (if v > 0 then 1 else 0) * v) x"
  let ?d = "elementwise (\<lambda>v::np_float. if v > 0 then 1 else (0::np_float)) x"
  have fw: "ReLU_forward_pass self x = (Inr ?out, self\<lparr>relu_input := Some x\<rparr>)"
    by (rule ReLU_forward_pass_eq)
  have gr: "ReLU_gradient (relu_input (snd (ReLU_forward_pass self x))) = Inr ?d"
    by (simp add: fw ReLU_gradient_eq)
  have bw: "ReLU_backward_pass (snd (ReLU_forward_pass self x)) cum_grad
      = (np_mul cum_grad ?d, (self\<lparr>relu_input := Some x\<rparr>)\<lparr>relu_grad := Some ?d\<rparr>)"
    by (simp add: fw ReLU_backward_pass_def ReLU_gradient_eq Let_def)
  have sh: "np_shape ?out = np_shape x" "np_shape ?d = np_shape x"
    by (simp_all add: np_shape_def nrows_elementwise ncols_elementwise)
  have en: "\<forall>i<nrows x. \<forall>j<ncols x.
        (item x i j > 0 \<longrightarrow> item ?out i j = item x i j \<and> item ?d i j = 1) \<and>
        (\<not> item x i j > 0 \<longrightarrow> item ?d i j = 0) \<and>
        (\<not> item x i j > 0 \<and> isfinite (item x i j) \<longrightarrow> item ?out i j = 0) \<and>
        (item x i j = NegInf \<or> item x i j = NaN \<longrightarrow> item ?out i j = NaN) \<and>
        (item x i j = 0 \<longrightarrow> item ?out i j = 0 \<and> item ?d i j = 0 \<and> item ?d i j \<noteq> 1)"
  proof (intro allI impI)
    fix i j assume "i < nrows x" and "j < ncols x"
    then have o: "item ?out i j = (if item x i j > 0 then 1 else 0) * item x i j"
      and d: "item ?d i j = (if item x i j > 0 then 1 else 0)"
      by (simp_all add: item_elementwise)
    show "(item x i j > 0 \<longrightarrow> item ?out i j = item x i j \<and> item ?d i j = 1) \<and>
        (\<not> item x i j > 0 \<longrightarrow> item ?d i j = 0) \<and>
        (\<not> item x i j > 0 \<and> isfinite (item x i j) \<longrightarrow> item ?out i j = 0) \<and>
        (item x i j = NegInf \<or> item x i j = NaN \<longrightarrow> item ?out i j = NaN) \<and>
        (item x i j = 0 \<longrightarrow> item ?out i j = 0 \<and> item ?d i j = 0 \<and> item ?d i j \<noteq> 1)"
      unfolding o d
      by (cases "item x i j")
        (auto simp add: np_float_positive np_float_one_times np_float_zero_times
          np_float_zero_neq_one zero_np_float_def one_np_float_def)
  qed
  show ?thesis
    using fw gr bw sh en
    by - (rule exI [of _ ?out], rule exI [of _ ?d], simp add: np_float_zero_neq_one)
qed

theorem relu_forward_and_derivative_witness:
  "(0::nat) < nrows c5_float_x \<and> (3::nat) < ncols c5_float_x \<and>
   item c5_float_x 0 0 = 0 \<and> item c5_float_x 0 1 > 0 \<and>
   \<not> item c5_float_x 0 2 > 0 \<and> isfinite (item c5_float_x 0 2) \<and>
   item c5_float_x 0 3 = PosInf \<and> item c5_float_x 0 3 > 0 \<and>
   (\<exists>out d.
     ReLU_forward_pass ReLU_init c5_float_x
       = (Inr out, ReLU_init\<lparr>relu_input := Some c5_float_x\<rparr>) \<and>
     ReLU_gradient (relu_input (snd (ReLU_forward_pass ReLU_init c5_float_x))) = Inr d \<and>
     item out 0 0 = 0 \<and> item d 0 0 = 0 \<and>
     item out 0 1 = item c5_float_x 0 1 \<and> item d 0 1 = 1 \<and>
     item out 0 2 = 0 \<and> item d 0 2 = 0 \<and>
     item out 0 3 = PosInf \<and> item d 0 3 = 1)"
proof -
  have h: "(0::nat) < nrows c5_float_x \<and> (3::nat) < ncols c5_float_x \<and>
     (2::nat) < ncols c5_float_x \<and> (1::nat) < ncols c5_float_x \<and>
     (0::nat) < ncols c5_float_x \<and>
     item c5_float_x 0 0 = 0 \<and> item c5_float_x 0 1 > 0 \<and>
     \<not> item c5_float_x 0 2 > 0 \<and> isfinite (item c5_float_x 0 2) \<and>
     item c5_float_x 0 3 = PosInf \<and> item c5_float_x 0 3 > 0"
    by (simp add: c5_float_x_def arr_def item_def zero_np_float_def)
  from relu_forward_and_derivative [of ReLU_init c5_float_x c5_float_cum_grad]
  obtain out d where
    a: "ReLU_forward_pass ReLU_init c5_float_x
          = (Inr out, ReLU_init\<lparr>relu_input := Some c5_float_x\<rparr>)"
    and b: "ReLU_gradient (relu_input (snd (ReLU_forward_pass ReLU_init c5_float_x))) = Inr d"
    and c: "\<forall>i<nrows c5_float_x. \<forall>j<ncols c5_float_x.
        (item c5_float_x i j > 0 \<longrightarrow> item out i j = item c5_float_x i j \<and> item d i j = 1) \<and>
        (\<not> item c5_float_x i j > 0 \<longrightarrow> item d i j = 0) \<and>
        (\<not> item c5_float_x i j > 0 \<and> isfinite (item c5_float_x i j) \<longrightarrow> item out i j = 0) \<and>
        (item c5_float_x i j = NegInf \<or> item c5_float_x i j = NaN \<longrightarrow> item out i j = NaN) \<and>
        (item c5_float_x i j = 0 \<longrightarrow> item out i j = 0 \<and> item d i j = 0 \<and> item d i j \<noteq> 1)"
    by blast
  from c h have "item out 0 0 = 0 \<and> item d 0 0 = 0 \<and>
     item out 0 1 = item c5_float_x 0 1 \<and> item d 0 1 = 1 \<and>
     item out 0 2 = 0 \<and> item d 0 2 = 0 \<and>
     item out 0 3 = item c5_float_x 0 3 \<and> item d 0 3 = 1"
    by blast
  with a b h show ?thesis by auto
qed

text \<open>Both passes evaluated, on entries with special values and on the real entries the
  network holds.\<close>

lemma ReLU_float_passes_evaluated:
  "ReLU_forward_pass ReLU_init c5_float_x =
     (Inr (arr [[Fin 0, Fin 2, Fin 0, PosInf]]), ReLU_init\<lparr>relu_input := Some c5_float_x\<rparr>) \<and>
   ReLU_backward_pass (ReLU_init\<lparr>relu_input := Some c5_float_x\<rparr>) c5_float_cum_grad =
     (Inr (arr [[Fin 0, Fin 5, Fin 0, Fin 5]]),
      ReLU_init\<lparr>relu_input := Some c5_float_x,
                relu_grad := Some (arr [[Fin 0, Fin 1, Fin 0, Fin 1]])\<rparr>)"
  by (simp add: ReLU_forward_pass_def ReLU_backward_pass_def ReLU_gradient_def ReLU_init_def
      c5_float_x_def c5_float_cum_grad_def np_mul_def np_gt0_def astype_int_def promote_bool_def
      elementwise_def broadcast_def broadcast_dim_def arr_def mk_def item_def Let_def
      zero_np_float_def one_np_float_def eval_nat_numeral)

lemma ReLU_passes_evaluated:
  "ReLU_forward_pass ReLU_init c5_x
     = (Inr (arr [[0, 2, 0]]), ReLU_init\<lparr>relu_input := Some c5_x\<rparr>) \<and>
   ReLU_backward_pass (ReLU_init\<lparr>relu_input := Some c5_x\<rparr>) c5_cum_grad =
     (Inr (arr [[0, 5, 0]]),
      ReLU_init\<lparr>relu_input := Some c5_x, relu_grad := Some (arr [[0, 1, 0]])\<rparr>)"
  by (simp add: ReLU_forward_pass_def ReLU_backward_pass_def ReLU_gradient_def ReLU_init_def
      c5_x_def c5_cum_grad_def np_mul_def np_gt0_def astype_int_def promote_bool_def
      elementwise_def broadcast_def
      broadcast_dim_def arr_def mk_def item_def Let_def eval_nat_numeral)

lemma Sigmoid_sigmoid_eq:
  "Sigmoid_sigmoid x = elementwise (\<lambda>v. 1 / (1 + exp (- v))) x"
  by (simp add: Sigmoid_sigmoid_def np_exp_def np_neg_def elementwise_elementwise)

text \<open>With real entries every value of the logistic function lies strictly between 0
  and 1. The model has no rounding, so this is a fact about the exact function, not about
  the \<^verbatim>\<open>float64\<close> value NumPy returns where \<open>1 + exp (- x)\<close> is not representable.\<close>

lemma Sigmoid_sigmoid_exact_range:
  assumes "i < nrows x" and "j < ncols x"
  shows "0 < item (Sigmoid_sigmoid x) i j \<and> item (Sigmoid_sigmoid x) i j < 1"
proof -
  have "item (Sigmoid_sigmoid x) i j = 1 / (1 + exp (- item x i j))"
    using assms by (simp add: Sigmoid_sigmoid_eq item_elementwise)
  moreover have "0 < exp (- item x i j)"
    by simp
  ultimately show ?thesis
    by (simp add: add_pos_pos)
qed

lemma Sigmoid_gradient_value:
  "Sigmoid_gradient (Some x) =
     Inr (elementwise (\<lambda>v. 1 / (1 + exp (- v)) * (1 - 1 / (1 + exp (- v)))) x)"
proof -
  let ?s = "\<lambda>v::real. 1 / (1 + exp (- v))"
  have "np_mul (elementwise ?s x) (elementwise (\<lambda>v. 1 - v) (elementwise ?s x))
      = Inr (mk (nrows x) (ncols x) (\<lambda>i j. item (elementwise ?s x) i j
            * item (elementwise (\<lambda>v. 1 - v) (elementwise ?s x)) i j))"
    by (simp add: np_mul_def broadcast_same_shape nrows_elementwise ncols_elementwise)
  also have "mk (nrows x) (ncols x) (\<lambda>i j. item (elementwise ?s x) i j
            * item (elementwise (\<lambda>v. 1 - v) (elementwise ?s x)) i j)
      = elementwise (\<lambda>v. ?s v * (1 - ?s v)) x"
    unfolding elementwise_elementwise
    unfolding elementwise_def by (rule mk_cong) (simp add: item_mk)
  finally show ?thesis by (simp add: Sigmoid_gradient_def Sigmoid_sigmoid_eq)
qed

text \<open>
  Claim C6. \<^verbatim>\<open>Sigmoid.forward_pass\<close> stores \<open>x\<close> and returns \<open>1 / (1 + exp (- x))\<close> entry
  by entry. \<^verbatim>\<open>Sigmoid.backward_pass\<close>, in any state whose stored input is \<open>x\<close> (whatever
  its \<^verbatim>\<open>grad\<close> field holds), computes the derivative
  \<open>sigmoid x * (1 - sigmoid x)\<close> from the stored input, stores it in \<^verbatim>\<open>grad\<close> and returns
  \<open>cum_grad\<close> times it; for a \<open>cum_grad\<close> of the shape of \<open>x\<close> that product is taken
  entry by entry.
\<close>

theorem sigmoid_forward_backward:
  "(\<exists>out. Sigmoid_forward_pass self x = (Inr out, self\<lparr>sig_input := Some x\<rparr>) \<and>
      wf_ndarray out \<and> np_shape out = np_shape x \<and>
      (\<forall>i<nrows x. \<forall>j<ncols x. item out i j = 1 / (1 + exp (- item x i j)))) \<and>
   (sig_input s = Some x \<longrightarrow>
      (\<exists>d. Sigmoid_backward_pass s cum_grad = (np_mul cum_grad d, s\<lparr>sig_grad := Some d\<rparr>) \<and>
         wf_ndarray d \<and> np_shape d = np_shape x \<and>
         (\<forall>i<nrows x. \<forall>j<ncols x.
            item d i j = 1 / (1 + exp (- item x i j)) * (1 - 1 / (1 + exp (- item x i j)))))) \<and>
   (sig_input s = Some x \<and> np_shape cum_grad = np_shape x \<longrightarrow>
      (\<exists>r. fst (Sigmoid_backward_pass s cum_grad) = Inr r \<and>
         wf_ndarray r \<and> np_shape r = np_shape x \<and>
         (\<forall>i<nrows x. \<forall>j<ncols x.
            item r i j = item cum_grad i j *
              (1 / (1 + exp (- item x i j)) * (1 - 1 / (1 + exp (- item x i j)))))))"
proof (intro conjI impI)
  show "\<exists>out. Sigmoid_forward_pass self x = (Inr out, self\<lparr>sig_input := Some x\<rparr>) \<and>
      wf_ndarray out \<and> np_shape out = np_shape x \<and>
      (\<forall>i<nrows x. \<forall>j<ncols x. item out i j = 1 / (1 + exp (- item x i j)))"
    by (simp add: Sigmoid_forward_pass_def Let_def Sigmoid_sigmoid_eq np_shape_def
        nrows_elementwise ncols_elementwise item_elementwise)
      (simp add: elementwise_def wf_mk)
next
  assume h: "sig_input s = Some x"
  let ?d = "elementwise (\<lambda>v. 1 / (1 + exp (- v)) * (1 - 1 / (1 + exp (- v)))) x"
  have run: "Sigmoid_backward_pass s cum_grad = (np_mul cum_grad ?d, s\<lparr>sig_grad := Some ?d\<rparr>)"
    using h by (simp add: Sigmoid_backward_pass_def Sigmoid_gradient_value Let_def)
  have "wf_ndarray ?d"
    by (simp add: elementwise_def wf_mk)
  moreover have "np_shape ?d = np_shape x"
    by (simp add: np_shape_def nrows_elementwise ncols_elementwise)
  moreover have "\<forall>i<nrows x. \<forall>j<ncols x.
      item ?d i j = 1 / (1 + exp (- item x i j)) * (1 - 1 / (1 + exp (- item x i j)))"
    by (simp add: item_elementwise)
  ultimately show "\<exists>d. Sigmoid_backward_pass s cum_grad
           = (np_mul cum_grad d, s\<lparr>sig_grad := Some d\<rparr>) \<and>
         wf_ndarray d \<and> np_shape d = np_shape x \<and>
         (\<forall>i<nrows x. \<forall>j<ncols x.
            item d i j = 1 / (1 + exp (- item x i j)) * (1 - 1 / (1 + exp (- item x i j))))"
    using run by blast
next
  assume h: "sig_input s = Some x \<and> np_shape cum_grad = np_shape x"
  let ?d = "elementwise (\<lambda>v. 1 / (1 + exp (- v)) * (1 - 1 / (1 + exp (- v)))) x"
  from h have sh: "nrows cum_grad = nrows x" "ncols cum_grad = ncols x"
    by (simp_all add: np_shape_def)
  have "fst (Sigmoid_backward_pass s cum_grad) = np_mul cum_grad ?d"
    using h by (simp add: Sigmoid_backward_pass_def Sigmoid_gradient_value Let_def)
  also have "\<dots> = Inr (mk (nrows x) (ncols x) (\<lambda>i j. item cum_grad i j * item ?d i j))"
    using sh by (simp add: np_mul_def broadcast_same_shape nrows_elementwise ncols_elementwise)
  finally show "\<exists>r. fst (Sigmoid_backward_pass s cum_grad) = Inr r \<and>
         wf_ndarray r \<and> np_shape r = np_shape x \<and>
         (\<forall>i<nrows x. \<forall>j<ncols x.
            item r i j = item cum_grad i j *
              (1 / (1 + exp (- item x i j)) * (1 - 1 / (1 + exp (- item x i j)))))"
    by (simp add: wf_mk np_shape_def nrows_mk ncols_mk item_mk item_elementwise)
qed

theorem sigmoid_forward_backward_witness:
  "sig_input c6_after_forward = Some c6_x \<and> np_shape c6_cum_grad = np_shape c6_x \<and>
   (0::nat) < nrows c6_x \<and> (0::nat) < ncols c6_x \<and>
   (\<exists>out. Sigmoid_forward_pass Sigmoid_init c6_x
            = (Inr out, Sigmoid_init\<lparr>sig_input := Some c6_x\<rparr>) \<and> item out 0 0 = 1 / 2) \<and>
   (\<exists>d. Sigmoid_backward_pass c6_after_forward c6_cum_grad
            = (np_mul c6_cum_grad d, c6_after_forward\<lparr>sig_grad := Some d\<rparr>) \<and>
         item d 0 0 = 1 / 4) \<and>
   (\<exists>r. fst (Sigmoid_backward_pass c6_after_forward c6_cum_grad) = Inr r \<and> item r 0 0 = 1)"
proof -
  have h: "sig_input c6_after_forward = Some c6_x \<and> np_shape c6_cum_grad = np_shape c6_x"
    by (simp add: c6_after_forward_def Sigmoid_forward_pass_def c6_x_def c6_cum_grad_def
        np_shape_def arr_def)
  have v: "(0::nat) < nrows c6_x \<and> (0::nat) < ncols c6_x \<and> item c6_x 0 0 = 0 \<and>
      item c6_cum_grad 0 0 = 4"
    by (simp add: c6_x_def c6_cum_grad_def arr_def item_def)
  note t = sigmoid_forward_backward [where self = Sigmoid_init and x = c6_x
      and s = c6_after_forward and cum_grad = c6_cum_grad]
  from t obtain out where
    a: "Sigmoid_forward_pass Sigmoid_init c6_x = (Inr out, Sigmoid_init\<lparr>sig_input := Some c6_x\<rparr>)"
    and a': "\<forall>i<nrows c6_x. \<forall>j<ncols c6_x. item out i j = 1 / (1 + exp (- item c6_x i j))"
    by blast
  from t h obtain d where
    b: "Sigmoid_backward_pass c6_after_forward c6_cum_grad
            = (np_mul c6_cum_grad d, c6_after_forward\<lparr>sig_grad := Some d\<rparr>)"
    and b': "\<forall>i<nrows c6_x. \<forall>j<ncols c6_x.
       item d i j = 1 / (1 + exp (- item c6_x i j)) * (1 - 1 / (1 + exp (- item c6_x i j)))"
    by blast
  from t h obtain r where
    c: "fst (Sigmoid_backward_pass c6_after_forward c6_cum_grad) = Inr r"
    and c': "\<forall>i<nrows c6_x. \<forall>j<ncols c6_x. item r i j = item c6_cum_grad i j *
       (1 / (1 + exp (- item c6_x i j)) * (1 - 1 / (1 + exp (- item c6_x i j))))"
    by blast
  from a' v have "item out 0 0 = 1 / 2" by simp
  moreover from b' v have "item d 0 0 = 1 / 4" by simp
  moreover from c' v have "item r 0 0 = 1" by simp
  ultimately show ?thesis using a b c h v by blast
qed

section \<open>The seed gradient of the loss\<close>

lemma seed_gradient_same_shape:
  assumes "nrows y = nrows p" and "ncols y = ncols p"
  shows "seed_gradient y p =
     Inr (mk (nrows p) (ncols p)
       (\<lambda>i j. (- (item y i j / item p i j) + (1 - item y i j) / (1 - item p i j))
                / real (nrows p)))"
proof -
  let ?r = "nrows p" and ?c = "ncols p"
  let ?a = "mk ?r ?c (\<lambda>i j. item y i j / item p i j)"
  let ?b = "mk ?r ?c (\<lambda>i j. (1 - item y i j) / (1 - item p i j))"
  let ?g = "mk ?r ?c (\<lambda>i j. - (item y i j / item p i j) + (1 - item y i j) / (1 - item p i j))"
  have a: "np_div y p = Inr ?a"
    using assms by (simp add: np_div_def broadcast_same_shape)
  have "np_div (elementwise (\<lambda>v. 1 - v) y) (elementwise (\<lambda>v. 1 - v) p)
      = Inr (mk ?r ?c (\<lambda>i j. item (elementwise (\<lambda>v. 1 - v) y) i j
                              / item (elementwise (\<lambda>v. 1 - v) p) i j))"
    using assms by (simp add: np_div_def broadcast_same_shape nrows_elementwise ncols_elementwise)
  also have "mk ?r ?c (\<lambda>i j. item (elementwise (\<lambda>v. 1 - v) y) i j
                              / item (elementwise (\<lambda>v. 1 - v) p) i j) = ?b"
    using assms by (intro mk_cong) (simp add: item_elementwise)
  finally have b: "np_div (elementwise (\<lambda>v. 1 - v) y) (elementwise (\<lambda>v. 1 - v) p) = Inr ?b" .
  have "np_add (np_neg ?a) ?b
      = Inr (mk ?r ?c (\<lambda>i j. item (np_neg ?a) i j + item ?b i j))"
    by (simp add: np_add_def np_neg_def broadcast_same_shape nrows_elementwise ncols_elementwise
        nrows_mk ncols_mk)
  also have "mk ?r ?c (\<lambda>i j. item (np_neg ?a) i j + item ?b i j) = ?g"
    by (intro mk_cong) (simp add: np_neg_def item_elementwise item_mk nrows_mk ncols_mk)
  finally have g: "np_add (np_neg ?a) ?b = Inr ?g" .
  have "elementwise (\<lambda>v. v / real (nrows ?g)) ?g
      = mk ?r ?c (\<lambda>i j. (- (item y i j / item p i j) + (1 - item y i j) / (1 - item p i j))
                / real ?r)"
    unfolding elementwise_def nrows_mk ncols_mk
    by (intro mk_cong) (simp add: item_mk)
  with a b g show ?thesis
    by (simp add: seed_gradient_def)
qed

text \<open>
  Claim C8. The seed gradient handed to the backward loop: for labels \<open>y\<close> and final
  outputs \<open>probs\<close> of the same shape \<open>[batch, n]\<close> (\<open>n = 1\<close> in the notebook) with no
  output equal to 0 or 1, the computation returns an array of that shape whose entry
  for each example is \<open>-(y/p) + (1-y)/(1-p)\<close> divided by the number of rows of the
  gradient array, which is the batch size.
\<close>

theorem seed_gradient_formula:
  assumes "np_shape y = (batch, n)" and "np_shape probs = (batch, n)"
    and "\<forall>i<batch. \<forall>j<n. item probs i j \<noteq> 0 \<and> item probs i j \<noteq> 1"
  shows "\<exists>grad. seed_gradient y probs = Inr grad \<and> wf_ndarray grad \<and>
      np_shape grad = (batch, n) \<and>
      (\<forall>i<batch. \<forall>j<n.
         item grad i j =
           (- (item y i j / item probs i j) + (1 - item y i j) / (1 - item probs i j))
           / real (nrows grad))"
proof -
  from assms have sh: "nrows y = nrows probs" "ncols y = ncols probs" "nrows probs = batch"
    "ncols probs = n"
    by (simp_all add: np_shape_def)
  show ?thesis
    unfolding seed_gradient_same_shape [OF sh(1,2)]
    using sh by (simp add: wf_mk np_shape_mk item_mk nrows_mk)
qed

text \<open>A batch of two, evaluated.\<close>

lemma seed_gradient_evaluated: "seed_gradient c8_y c8_probs = Inr (arr [[1], [-2]])"
  by (simp add: seed_gradient_def c8_y_def c8_probs_def np_div_def np_add_def np_neg_def
      elementwise_def broadcast_def broadcast_dim_def arr_def mk_def item_def eval_nat_numeral)

theorem seed_gradient_formula_witness:
  "np_shape c8_y = (2, 1) \<and> np_shape c8_probs = (2, 1) \<and>
   item c8_probs 0 0 \<noteq> 0 \<and> item c8_probs 0 0 \<noteq> 1 \<and>
   item c8_probs 1 0 \<noteq> 0 \<and> item c8_probs 1 0 \<noteq> 1 \<and>
   (\<exists>grad. seed_gradient c8_y c8_probs = Inr grad \<and> wf_ndarray grad \<and>
      np_shape grad = (2, 1) \<and> item grad 0 0 = 1 \<and> item grad 1 0 = - 2)"
proof -
  have h1: "np_shape c8_y = (2, 1)" and h2: "np_shape c8_probs = (2, 1)"
    by (simp_all add: c8_y_def c8_probs_def np_shape_def arr_def)
  have v: "item c8_probs 0 0 = 1 / 2" "item c8_probs (Suc 0) 0 = 1 / 4"
    "item c8_y 0 0 = 0" "item c8_y (Suc 0) 0 = 1"
    by (simp_all add: c8_probs_def c8_y_def arr_def item_def)
  have h3: "\<forall>i<2. \<forall>j<1. item c8_probs i j \<noteq> 0 \<and> item c8_probs i j \<noteq> 1"
    by (simp add: less_2_cases_iff v)
  from seed_gradient_formula [OF h1 h2 h3] obtain grad where
    g: "seed_gradient c8_y c8_probs = Inr grad" "wf_ndarray grad" "np_shape grad = (2, 1)"
    and e: "\<forall>i<2. \<forall>j<1. item grad i j =
           (- (item c8_y i j / item c8_probs i j) + (1 - item c8_y i j) / (1 - item c8_probs i j))
           / real (nrows grad)"
    by blast
  from g(3) have n: "nrows grad = 2"
    by (simp add: np_shape_def)
  have "item grad 0 0 = 1"
    by (simp add: e [rule_format, of 0 0] v n)
  moreover have "item grad 1 0 = - 2"
    by (simp add: e [rule_format, of "Suc 0" 0] v n)
  ultimately show ?thesis
    using g h1 h2 by (simp add: v)
qed

section \<open>The driver loops\<close>

lemma for_layer_in_length: "length (snd (for_layer_in method ls v)) = length ls"
  by (induction ls arbitrary: v) (simp_all add: case_prod_beta split: sum.splits)

lemma value_after_Cons:
  "value_after method (l # ls) v (Suc n) =
     (case fst (method l v) of Inl e \<Rightarrow> Inl e | Inr w \<Rightarrow> value_after method ls w n)"
  by (induction n) (auto split: sum.splits)

lemma for_layer_in_value:
  "fst (for_layer_in method ls v) = value_after method ls v (length ls)"
proof (induction ls arbitrary: v)
  case Nil
  show ?case by simp
next
  case (Cons l ls)
  show ?case
  proof (cases "method l v")
    case (Pair r l')
    then show ?thesis
      using Cons.IH [of "projr r"]
      by (cases r) (simp_all add: value_after_Cons case_prod_beta del: value_after.simps(2))
  qed
qed

lemma for_layer_in_state:
  "n < length ls \<Longrightarrow>
   snd (for_layer_in method ls v) ! n =
     (case value_after method ls v n of
        Inl e \<Rightarrow> ls ! n
      | Inr w \<Rightarrow> snd (method (ls ! n) w))"
proof (induction ls arbitrary: v n)
  case Nil
  then show ?case by simp
next
  case (Cons l ls)
  obtain r l' where m: "method l v = (r, l')" by (cases "method l v")
  show ?case
  proof (cases n)
    case 0
    with m show ?thesis by (cases r) (simp_all split: prod.splits)
  next
    case (Suc k)
    with Cons.prems have k: "k < length ls" by simp
    show ?thesis
    proof (cases r)
      case (Inl e)
      with m Suc show ?thesis by (simp add: value_after_Cons del: value_after.simps(2))
    next
      case (Inr w)
      with m Suc Cons.IH [OF k, of w] show ?thesis
        by (simp add: value_after_Cons case_prod_beta del: value_after.simps(2) split: sum.splits)
    qed
  qed
qed

lemma output_after_unrolled:
  "output_after layers x n = value_after layer_forward_pass layers x n"
  by (induction n) simp_all

lemma gradient_after_unrolled:
  "n \<le> length layers \<Longrightarrow>
   gradient_after layers g n = value_after layer_backward_pass (rev layers) g n"
  by (induction n) (simp_all add: rev_nth split: sum.splits)

text \<open>
  Claim C3. The forward loop calls \<^verbatim>\<open>forward_pass\<close> of the layers in list order: the first
  layer receives the input batch, layer \<open>n\<close> receives what layer \<open>n - 1\<close> returned, and
  the value of the loop is what the last layer returned. The backward loop calls
  \<^verbatim>\<open>backward_pass\<close> in reverse list order: the last layer receives the seed gradient and
  the layer at position \<open>length layers - 1 - n\<close> receives what the layer after it
  returned. Every layer is left in the state its one call put it in; a layer that is not
  reached because an earlier call raised is unchanged.
\<close>

theorem drivers_feed_layers_in_order:
  "fst (forward_driver layers x) = output_after layers x (length layers) \<and>
   length (snd (forward_driver layers x)) = length layers \<and>
   (\<forall>n<length layers.
      snd (forward_driver layers x) ! n =
        (case output_after layers x n of
           Inl e \<Rightarrow> layers ! n
         | Inr v \<Rightarrow> snd (layer_forward_pass (layers ! n) v))) \<and>
   fst (backward_driver layers g) = gradient_after layers g (length layers) \<and>
   length (snd (backward_driver layers g)) = length layers \<and>
   (\<forall>n<length layers.
      snd (backward_driver layers g) ! (length layers - Suc n) =
        (case gradient_after layers g n of
           Inl e \<Rightarrow> layers ! (length layers - Suc n)
         | Inr v \<Rightarrow> snd (layer_backward_pass (layers ! (length layers - Suc n)) v)))"
proof (intro conjI allI impI)
  show "fst (forward_driver layers x) = output_after layers x (length layers)"
    by (simp add: forward_driver_def for_layer_in_value output_after_unrolled)
  show "length (snd (forward_driver layers x)) = length layers"
    by (simp add: forward_driver_def for_layer_in_length)
  show "fst (backward_driver layers g) = gradient_after layers g (length layers)"
    using for_layer_in_value [of layer_backward_pass "rev layers" g]
    by (simp add: backward_driver_def gradient_after_unrolled case_prod_beta)
  show len: "length (snd (backward_driver layers g)) = length layers"
    using for_layer_in_length [of layer_backward_pass "rev layers" g]
    by (simp add: backward_driver_def case_prod_beta)
next
  fix n assume "n < length layers"
  then show "snd (forward_driver layers x) ! n =
        (case output_after layers x n of
           Inl e \<Rightarrow> layers ! n
         | Inr v \<Rightarrow> snd (layer_forward_pass (layers ! n) v))"
    by (simp add: forward_driver_def for_layer_in_state output_after_unrolled)
next
  fix n assume n: "n < length layers"
  let ?ls = "snd (for_layer_in layer_backward_pass (rev layers) g)"
  have len: "length ?ls = length layers"
    by (simp add: for_layer_in_length)
  have "snd (backward_driver layers g) = rev ?ls"
    by (simp add: backward_driver_def case_prod_beta)
  then have "snd (backward_driver layers g) ! (length layers - Suc n) = ?ls ! n"
    using n len by (simp add: rev_nth)
  also have "\<dots> = (case value_after layer_backward_pass (rev layers) g n of
        Inl e \<Rightarrow> rev layers ! n
      | Inr w \<Rightarrow> snd (layer_backward_pass (rev layers ! n) w))"
    using n by (simp add: for_layer_in_state)
  finally show "snd (backward_driver layers g) ! (length layers - Suc n) =
        (case gradient_after layers g n of
           Inl e \<Rightarrow> layers ! (length layers - Suc n)
         | Inr v \<Rightarrow> snd (layer_backward_pass (layers ! (length layers - Suc n)) v))"
    using n by (simp add: gradient_after_unrolled rev_nth split: sum.splits)
qed


text \<open>A forward and a backward pass through the four layers, evaluated.\<close>

lemma c3_forward_evaluated:
  "forward_driver c3_layers c3_x =
     (Inr (arr [[1 / 2]]),
      [Dense_obj ((LinearLayer_init (1, 1) (arr [[2]]) [-1])\<lparr>input := Some (arr [[1]])\<rparr>),
       ReLU_obj (ReLU_init\<lparr>relu_input := Some (arr [[1]])\<rparr>),
       Dense_obj ((LinearLayer_init (1, 1) (arr [[3]]) [-3])\<lparr>input := Some (arr [[1]])\<rparr>),
       Sigmoid_obj (Sigmoid_init\<lparr>sig_input := Some (arr [[0]])\<rparr>)])"
  by (simp add: forward_driver_def c3_layers_def c3_x_def LinearLayer_forward_pass_def
      ReLU_forward_pass_def Sigmoid_forward_pass_def Sigmoid_sigmoid_def LinearLayer_init_def
      ReLU_init_def Sigmoid_init_def np_add_def np_mul_def np_neg_def np_exp_def np_gt0_def
      promote_bool_def
      as_row_def elementwise_def broadcast_def broadcast_dim_def np_dot_def arr_def mk_def
      item_def Let_def eval_nat_numeral)

lemma c3_backward_evaluated:
  "backward_driver c3_after_forward c3_seed =
     (Inr (arr [[6]]),
      [Dense_obj ((LinearLayer_init (1, 1) (arr [[2]]) [-1])
         \<lparr>input := Some (arr [[1]]), grad_weights := Some (arr [[3]]),
          grad_bias := Some (arr [[3]])\<rparr>),
       ReLU_obj (ReLU_init\<lparr>relu_input := Some (arr [[1]]), relu_grad := Some (arr [[1]])\<rparr>),
       Dense_obj ((LinearLayer_init (1, 1) (arr [[3]]) [-3])
         \<lparr>input := Some (arr [[1]]), grad_weights := Some (arr [[1]]),
          grad_bias := Some (arr [[1]])\<rparr>),
       Sigmoid_obj (Sigmoid_init\<lparr>sig_input := Some (arr [[0]]),
          sig_grad := Some (arr [[1 / 4]])\<rparr>)])"
  unfolding c3_after_forward_def c3_forward_evaluated
  by (simp add: backward_driver_def c3_seed_def LinearLayer_backward_pass_def
      ReLU_backward_pass_def Sigmoid_backward_pass_def Sigmoid_sigmoid_def Sigmoid_gradient_def
      ReLU_gradient_def astype_int_def np_sum_axis0_keepdims_def np_T_def
      LinearLayer_init_def
      ReLU_init_def Sigmoid_init_def np_add_def np_mul_def np_neg_def np_exp_def np_gt0_def
      promote_bool_def
      as_row_def elementwise_def broadcast_def broadcast_dim_def np_dot_def arr_def mk_def
      item_def Let_def eval_nat_numeral)

theorem drivers_feed_layers_in_order_witness:
  "(3::nat) < length c3_layers \<and>
   fst (forward_driver c3_layers c3_x) = output_after c3_layers c3_x (length c3_layers) \<and>
   snd (forward_driver c3_layers c3_x) ! 3 =
     (case output_after c3_layers c3_x 3 of
        Inl e \<Rightarrow> c3_layers ! 3
      | Inr v \<Rightarrow> snd (layer_forward_pass (c3_layers ! 3) v)) \<and>
   (0::nat) < length c3_after_forward \<and>
   fst (backward_driver c3_after_forward c3_seed)
     = gradient_after c3_after_forward c3_seed (length c3_after_forward) \<and>
   snd (backward_driver c3_after_forward c3_seed) ! (length c3_after_forward - Suc 0) =
     (case gradient_after c3_after_forward c3_seed 0 of
        Inl e \<Rightarrow> c3_after_forward ! (length c3_after_forward - Suc 0)
      | Inr v \<Rightarrow> snd (layer_backward_pass (c3_after_forward ! (length c3_after_forward - Suc 0)) v))"
proof -
  have h1: "(3::nat) < length c3_layers"
    by (simp add: c3_layers_def)
  have h2: "(0::nat) < length c3_after_forward"
    by (simp add: c3_after_forward_def c3_forward_evaluated)
  from drivers_feed_layers_in_order [of c3_layers c3_x c3_seed]
    drivers_feed_layers_in_order [of c3_after_forward c3_x c3_seed] h1 h2
  show ?thesis by blast
qed

end
